theory Spec2Isabelle
  imports Main "HOL-Library.Word"
begin

unbundle bit_operations_syntax

section \<open>Python strings\<close>

text \<open>
  The texts of the ledger, the state file and the configuration are modelled by
  \<^typ>\<open>string\<close>; its characters stand for the code points U+0000 to U+00FF, on which
  \<open>str.lower\<close>, \<open>str.strip\<close> and \<open>str.isspace\<close> act character by character as written
  below. The secrets and the user name typed at the command line are lists of code
  points of any size (sections \<open>security.py\<close> and \<open>config.py\<close>).
\<close>

definition py_isspace :: "char \<Rightarrow> bool" where
  "py_isspace c =
     (let n = (of_char c :: nat)
      in (9 \<le> n \<and> n \<le> 13) \<or> (28 \<le> n \<and> n \<le> 32) \<or> n = 133 \<or> n = 160)"

definition py_lower_char :: "char \<Rightarrow> char" where
  "py_lower_char c =
     (let n = (of_char c :: nat)
      in if (65 \<le> n \<and> n \<le> 90) \<or> (192 \<le> n \<and> n \<le> 222 \<and> n \<noteq> 215)
         then char_of (n + 32) else c)"

definition py_lower :: "string \<Rightarrow> string" where
  "py_lower s = map py_lower_char s"

text \<open>\<open>s.strip(chars)\<close>: drop the characters of the set from both ends.\<close>

definition py_strip_chars :: "('a \<Rightarrow> bool) \<Rightarrow> 'a list \<Rightarrow> 'a list" where
  "py_strip_chars P s = rev (dropWhile P (rev (dropWhile P s)))"

definition py_strip :: "string \<Rightarrow> string" where
  "py_strip s = py_strip_chars py_isspace s"

section \<open>Python values and exceptions\<close>

text \<open>
  The values that cross the program's untyped boundaries (a parsed JSON document, a cell
  of a ledger record). A finite float is \<open>m * 2 ^ e\<close>, written \<open>Finite m e\<close>; a \<open>dict\<close>
  with string keys is an association list read with \<^const>\<open>map_of\<close>.
\<close>

datatype pyfloat = Finite int int | Infinite bool | NaN

datatype pyval =
    PNone
  | PBool bool
  | PInt int
  | PFloat pyfloat
  | PStr string
  | PList "pyval list"
  | PDict "(string \<times> pyval) list"

text \<open>The exceptions the modelled code raises, by their Python names.\<close>

datatype error =
    FileNotFoundError
  | FileExistsError
  | PermissionError
  | JSONDecodeError
  | KeyError string
  | IndexError
  | TypeError
  | AttributeError
  | ValueError
  | OverflowError
  | UnicodeEncodeError
  | UnicodeDecodeError
  | BinasciiError
  | OSError
  | CommandError
  | CalledProcessError
  | WorksheetNotFound
  | APIError
  | NotModelled

text \<open>Truth value of an object, as \<open>or\<close> and \<open>if\<close> test it.\<close>

fun py_truthy :: "pyval \<Rightarrow> bool" where
  "py_truthy PNone = False"
| "py_truthy (PBool b) = b"
| "py_truthy (PInt n) = (n \<noteq> 0)"
| "py_truthy (PFloat (Finite m e)) = (m \<noteq> 0)"
| "py_truthy (PFloat _) = True"
| "py_truthy (PStr s) = (s \<noteq> [])"
| "py_truthy (PList xs) = (xs \<noteq> [])"
| "py_truthy (PDict kvs) = (kvs \<noteq> [])"

text \<open>\<open>d.get(key, default)\<close>: only a \<open>dict\<close> has the method.\<close>

fun py_get :: "pyval \<Rightarrow> string \<Rightarrow> pyval \<Rightarrow> error + pyval" where
  "py_get (PDict kvs) k dflt = Inr (case map_of kvs k of None \<Rightarrow> dflt | Some v \<Rightarrow> v)"
| "py_get _ k dflt = Inl AttributeError"

text \<open>\<open>d[key]\<close> with a string key: a missing key of a \<open>dict\<close> is a \<open>KeyError\<close>, any other
  object refuses the subscript with a \<open>TypeError\<close>.\<close>

fun py_getitem :: "pyval \<Rightarrow> string \<Rightarrow> error + pyval" where
  "py_getitem (PDict kvs) k = (case map_of kvs k of None \<Rightarrow> Inl (KeyError k) | Some v \<Rightarrow> Inr v)"
| "py_getitem _ k = Inl TypeError"

text \<open>Sequencing of a computation that may raise.\<close>

definition bind :: "error + 'a \<Rightarrow> ('a \<Rightarrow> error + 'b) \<Rightarrow> error + 'b" where
  "bind m f = (case m of Inl e \<Rightarrow> Inl e | Inr x \<Rightarrow> f x)"

section \<open>Numbers and text\<close>

text \<open>\<open>str(n)\<close> of an \<open>int\<close>: the decimal digits, with a minus sign when negative.\<close>

definition digit_char :: "nat \<Rightarrow> char" where
  "digit_char d = char_of (48 + d)"

function dec :: "nat \<Rightarrow> string" where
  "dec n = (if n < 10 then [digit_char n] else dec (n div 10) @ [digit_char (n mod 10)])"
  by pat_completeness auto
termination
  by (relation "measure id") auto

declare dec.simps [simp del]

definition py_str_int :: "int \<Rightarrow> string" where
  "py_str_int n = (if n < 0 then CHR ''-'' # dec (nat (- n)) else dec (nat n))"

text \<open>\<open>int(s)\<close> of a \<open>str\<close>: white space around the literal is dropped, one sign may lead,
  and the digits may be grouped by single underscores; anything else is a \<open>ValueError\<close>.
  The white space of \<open>int\<close> is narrower than that of \<open>str.strip\<close>: of the ASCII characters
  only U+0009 to U+000D and the space are dropped, not the separators U+001C to U+001F.
  Integers are unbounded: the bound that an interpreter may set on the number of digits
  of a literal (\<open>sys.set_int_max_str_digits\<close>) is taken to be off.\<close>

definition int_isspace :: "char \<Rightarrow> bool" where
  "int_isspace c =
     (let n = (of_char c :: nat)
      in (9 \<le> n \<and> n \<le> 13) \<or> n = 32 \<or> n = 133 \<or> n = 160)"

definition is_ascii_digit :: "char \<Rightarrow> bool" where
  "is_ascii_digit c = (let n = (of_char c :: nat) in 48 \<le> n \<and> n \<le> 57)"

definition digit_val :: "char \<Rightarrow> nat" where
  "digit_val c = of_char c - 48"

fun digits_ok :: "string \<Rightarrow> bool" where
  "digits_ok [] = False"
| "digits_ok [c] = is_ascii_digit c"
| "digits_ok (c # d # r) =
     (is_ascii_digit c \<and> (if d = CHR ''_'' then digits_ok r else digits_ok (d # r)))"

definition digits_value :: "string \<Rightarrow> nat" where
  "digits_value s = foldl (\<lambda>a c. 10 * a + digit_val c) 0 (filter (\<lambda>c. c \<noteq> CHR ''_'') s)"

definition py_int_str :: "string \<Rightarrow> error + int" where
  "py_int_str s =
     (case py_strip_chars int_isspace s of
        [] \<Rightarrow> Inl ValueError
      | c # r \<Rightarrow>
          let neg = (c = CHR ''-'');
              body = (if c = CHR ''-'' \<or> c = CHR ''+'' then r else c # r)
          in if digits_ok body
             then Inr (if neg then - int (digits_value body) else int (digits_value body))
             else Inl ValueError)"

text \<open>\<open>int(x)\<close> of a \<open>float\<close>: truncation towards zero; an infinity is an
  \<open>OverflowError\<close>, a NaN a \<open>ValueError\<close>.\<close>

fun py_int_float :: "pyfloat \<Rightarrow> error + int" where
  "py_int_float (Finite m e) =
     Inr (if 0 \<le> e then m * 2 ^ nat e else sgn m * (\<bar>m\<bar> div 2 ^ nat (- e)))"
| "py_int_float (Infinite b) = Inl OverflowError"
| "py_int_float NaN = Inl ValueError"

text \<open>\<open>str.isdigit\<close> (the superscripts one, two and three count) and \<open>s.split(sep)\<close> for a
  separator of one character.\<close>

definition py_isdigit :: "char \<Rightarrow> bool" where
  "py_isdigit c =
     (let n = (of_char c :: nat) in (48 \<le> n \<and> n \<le> 57) \<or> n = 178 \<or> n = 179 \<or> n = 185)"

fun py_split :: "char \<Rightarrow> string \<Rightarrow> string list" where
  "py_split sep [] = [[]]"
| "py_split sep (c # cs) =
     (if c = sep then [] # py_split sep cs
      else case py_split sep cs of
             w # ws \<Rightarrow> (c # w) # ws
           | [] \<Rightarrow> [[c]])"

section \<open>security.py\<close>

text \<open>
  The secret is the one string of the program that is encoded, so its code points are kept
  as numbers (\<open>unicode\<close>): the characters beyond U+00FF and the surrogate pairs of UTF-16
  are in the model. Bytes are 8-bit words.
\<close>

type_synonym byte = "8 word"

type_synonym unicode = "nat list"

subsection \<open>The codec \<open>utf-16-le\<close>\<close>

definition le_bytes :: "nat \<Rightarrow> byte list" where
  "le_bytes u = [of_nat (u mod 256), of_nat (u div 256)]"

definition encode_code_point :: "nat \<Rightarrow> byte list" where
  "encode_code_point c =
     (if c < 0x10000 then le_bytes c
      else let v = c - 0x10000
           in le_bytes (0xD800 + v div 1024) @ le_bytes (0xDC00 + v mod 1024))"

text \<open>\<open>s.encode("utf-16-le")\<close>: a surrogate code point is a \<open>UnicodeEncodeError\<close>. A
  number beyond U+10FFFF is no code point of a \<open>str\<close>; the model refuses it alike.\<close>

fun utf16le_encode :: "unicode \<Rightarrow> error + byte list" where
  "utf16le_encode [] = Inr []"
| "utf16le_encode (c # cs) =
     (if (0xD800 \<le> c \<and> c < 0xE000) \<or> 0x10FFFF < c then Inl UnicodeEncodeError
      else bind (utf16le_encode cs) (\<lambda>rest. Inr (encode_code_point c @ rest)))"

text \<open>\<open>b.decode("utf-16-le")\<close>: an odd byte at the end, a high surrogate without its low
  one and a low surrogate on its own are \<open>UnicodeDecodeError\<close>s.\<close>

fun utf16le_decode :: "byte list \<Rightarrow> error + unicode" where
  "utf16le_decode [] = Inr []"
| "utf16le_decode [a] = Inl UnicodeDecodeError"
| "utf16le_decode (a # b # rest) =
     (let u = unat a + 256 * unat b
      in if u < 0xD800 \<or> 0xE000 \<le> u
         then bind (utf16le_decode rest) (\<lambda>r. Inr (u # r))
         else if u < 0xDC00
         then (case rest of
                 c # d # rest' \<Rightarrow>
                   let v = unat c + 256 * unat d
                   in if 0xDC00 \<le> v \<and> v < 0xE000
                      then bind (utf16le_decode rest')
                             (\<lambda>r. Inr ((0x10000 + (u - 0xD800) * 1024 + (v - 0xDC00)) # r))
                      else Inl UnicodeDecodeError
               | _ \<Rightarrow> Inl UnicodeDecodeError)
         else Inl UnicodeDecodeError)"

subsection \<open>Base64\<close>

text \<open>The alphabet \<open>A-Z a-z 0-9 + /\<close>, by value and back.\<close>

definition b64_char :: "nat \<Rightarrow> char" where
  "b64_char v =
     (if v < 26 then char_of (65 + v)
      else if v < 52 then char_of (97 + (v - 26))
      else if v < 62 then char_of (48 + (v - 52))
      else if v = 62 then CHR ''+'' else CHR ''/'')"

definition b64_value :: "char \<Rightarrow> nat option" where
  "b64_value c =
     (let n = (of_char c :: nat)
      in if 65 \<le> n \<and> n \<le> 90 then Some (n - 65)
         else if 97 \<le> n \<and> n \<le> 122 then Some (n - 71)
         else if 48 \<le> n \<and> n \<le> 57 then Some (n + 4)
         else if n = 43 then Some 62
         else if n = 47 then Some 63
         else None)"

text \<open>\<open>base64.b64encode\<close>: three bytes give four characters, and the last one or two
  bytes are padded with \<open>=\<close>.\<close>

fun b64encode :: "byte list \<Rightarrow> string" where
  "b64encode [] = []"
| "b64encode [a] =
     [b64_char (unat a div 4), b64_char (unat a mod 4 * 16), CHR ''='', CHR ''='']"
| "b64encode [a, b] =
     [b64_char (unat a div 4), b64_char (unat a mod 4 * 16 + unat b div 16),
      b64_char (unat b mod 16 * 4), CHR ''='']"
| "b64encode (a # b # c # rest) =
     [b64_char (unat a div 4), b64_char (unat a mod 4 * 16 + unat b div 16),
      b64_char (unat b mod 16 * 4 + unat c div 64), b64_char (unat c mod 64)]
     @ b64encode rest"

text \<open>
  \<open>base64.b64decode\<close> without validation, as \<open>binascii.a2b_base64\<close> scans: a character
  outside the alphabet is passed over; \<open>quad_pos\<close> counts the characters of the current
  group, \<open>leftchar\<close> holds the bits not yet written, \<open>pads\<close> the padding seen. Padding
  that completes a group ends the scan; an incomplete group at the end of the input is an
  error (\<open>binascii.Error\<close>).
\<close>

fun b64_scan :: "string \<Rightarrow> nat \<Rightarrow> nat \<Rightarrow> nat \<Rightarrow> byte list \<Rightarrow> error + byte list" where
  "b64_scan [] quad_pos leftchar pads out =
     (if quad_pos \<noteq> 0 then Inl BinasciiError else Inr (rev out))"
| "b64_scan (c # cs) quad_pos leftchar pads out =
     (if c = CHR ''='' then
        (if 2 \<le> quad_pos \<and> 4 \<le> quad_pos + (pads + 1) then Inr (rev out)
         else b64_scan cs quad_pos leftchar (if 2 \<le> quad_pos then pads + 1 else pads) out)
      else case b64_value c of
        None \<Rightarrow> b64_scan cs quad_pos leftchar pads out
      | Some v \<Rightarrow>
          if quad_pos = 0 then b64_scan cs 1 v 0 out
          else if quad_pos = 1
          then b64_scan cs 2 (v mod 16) 0 (of_nat (leftchar * 4 + v div 16) # out)
          else if quad_pos = 2
          then b64_scan cs 3 (v mod 4) 0 (of_nat (leftchar * 16 + v div 4) # out)
          else b64_scan cs 0 0 0 (of_nat (leftchar * 64 + v) # out))"

text \<open>\<open>protected.encode("ascii")\<close> refuses a character beyond U+007F.\<close>

definition b64decode :: "string \<Rightarrow> error + byte list" where
  "b64decode s =
     (if list_all (\<lambda>c. (of_char c :: nat) < 128) s then b64_scan s 0 0 0 []
      else Inl UnicodeEncodeError)"

subsection \<open>The data protection interface\<close>

text \<open>
  \<open>CryptProtectData\<close> and \<open>CryptUnprotectData\<close> are the platform's; they are parameters of
  the model. The first takes the data, the description and the flags, the second the
  protected data and the flags. \<open>None\<close> is the call that fails: it returns 0 and leaves the
  output blob empty. \<open>Some\<close> is the call that succeeds: it returns 1 and fills the blob.
\<close>

record dpapi =
  CryptProtectData :: "byte list \<Rightarrow> string \<Rightarrow> nat \<Rightarrow> byte list option"
  CryptUnprotectData :: "byte list \<Rightarrow> nat \<Rightarrow> byte list option"

definition CRYPTPROTECT_LOCAL_MACHINE :: nat where
  "CRYPTPROTECT_LOCAL_MACHINE = 4"

definition call_result :: "byte list option \<Rightarrow> int" where
  "call_result r = (case r of None \<Rightarrow> 0 | Some blob \<Rightarrow> 1)"

definition out_blob :: "byte list option \<Rightarrow> byte list" where
  "out_blob r = (case r of None \<Rightarrow> [] | Some blob \<Rightarrow> blob)"

text \<open>
  The test \<open>result != BOOL(True)\<close> compares the \<open>int\<close> that the foreign call returned
  with an instance of \<open>ctypes.c_long\<close>. The classes of \<open>ctypes\<close> define no equality, so
  an instance equals nothing but itself: the two sides are unequal whatever the number.
\<close>

datatype operand = PyInt int | BOOL bool

fun py_ne :: "operand \<Rightarrow> operand \<Rightarrow> bool" where
  "py_ne (PyInt a) (PyInt b) = (a \<noteq> b)"
| "py_ne x y = True"

text \<open>\<open>protect_string\<close>; its argument is a \<open>str\<close> by its type here, so the \<open>TypeError\<close> of
  the first lines has no branch. \<open>_raise_last_error\<close> raises an \<open>OSError\<close>.\<close>

definition protect_string :: "dpapi \<Rightarrow> unicode \<Rightarrow> error + string" where
  "protect_string D secret =
     bind (utf16le_encode secret) (\<lambda>data.
       let r = CryptProtectData D data ''computer-setup'' CRYPTPROTECT_LOCAL_MACHINE;
           result = call_result r
       in if py_ne (PyInt result) (BOOL True) then Inl OSError
          else Inr (b64encode (out_blob r)))"

text \<open>\<open>unprotect_string\<close>, called with a field of the loaded state.\<close>

definition unprotect_string :: "dpapi \<Rightarrow> pyval \<Rightarrow> error + unicode" where
  "unprotect_string D protected =
     (case protected of
        PStr s \<Rightarrow>
          bind (b64decode s) (\<lambda>raw.
            let r = CryptUnprotectData D raw 0;
                result = call_result r
            in if py_ne (PyInt result) (BOOL True) then Inl OSError
               else utf16le_decode (out_blob r))
      | _ \<Rightarrow> Inl TypeError)"

section \<open>config.py\<close>

text \<open>
  \<open>slugify_user\<close> takes the user name as typed, any \<open>str\<close>; such a string is the list of
  its code points (\<open>unicode\<close>). What the interpreter does with a code point from U+0080 on
  is read from its Unicode tables, which are a parameter here: whether the code point is
  white space, its full lower-case mapping (up to three code points), the decision on a
  capital sigma in its context, and whether the code point is alphanumeric. On the ASCII
  code points the interpreter's answers are written out.
\<close>

record unicode_db =
  is_whitespace :: "nat \<Rightarrow> bool"
  to_lower_full :: "nat \<Rightarrow> unicode"
  final_sigma :: "unicode \<Rightarrow> nat \<Rightarrow> bool"
  is_alnum :: "nat \<Rightarrow> bool"

definition code_points :: "string \<Rightarrow> unicode" where
  "code_points s = map of_char s"

definition text_of :: "unicode \<Rightarrow> string" where
  "text_of u = map char_of u"

text \<open>\<open>str.isspace\<close>, \<open>str.strip()\<close> and \<open>str.isalnum\<close> of one code point.\<close>

definition str_isspace :: "unicode_db \<Rightarrow> nat \<Rightarrow> bool" where
  "str_isspace T c =
     (if c < 128 then (9 \<le> c \<and> c \<le> 13) \<or> (28 \<le> c \<and> c \<le> 32) else is_whitespace T c)"

definition str_strip :: "unicode_db \<Rightarrow> unicode \<Rightarrow> unicode" where
  "str_strip T s = py_strip_chars (str_isspace T) s"


text \<open>\<open>str.lower\<close>: the code point at position \<open>i\<close> of \<open>s\<close> is replaced by its lower-case
  mapping; a capital sigma (U+03A3) becomes the final (U+03C2) or the plain small sigma
  (U+03C3), by its context.\<close>

definition lower_ucs4 :: "unicode_db \<Rightarrow> unicode \<Rightarrow> nat \<Rightarrow> unicode" where
  "lower_ucs4 T s i =
     (let c = s ! i
      in if c = 0x3A3 then [if final_sigma T s i then 0x3C2 else 0x3C3]
         else if c < 128 then [if 65 \<le> c \<and> c \<le> 90 then c + 32 else c]
         else to_lower_full T c)"

definition str_lower :: "unicode_db \<Rightarrow> unicode \<Rightarrow> unicode" where
  "str_lower T s = concat (map (lower_ucs4 T s) [0..<length s])"

text \<open>The character class \<open>[a-z0-9]\<close> of \<open>_USER_SLUG_RE\<close>, and the hyphen.\<close>

definition is_slug_char :: "nat \<Rightarrow> bool" where
  "is_slug_char c = ((97 \<le> c \<and> c \<le> 122) \<or> (48 \<le> c \<and> c \<le> 57))"

definition hyphen :: nat where
  "hyphen = 45"

text \<open>\<open>_USER_SLUG_RE.sub("-", s)\<close>: every maximal run of code points outside \<open>[a-z0-9]\<close>
  becomes one hyphen.\<close>

function user_slug_sub :: "unicode \<Rightarrow> unicode" where
  "user_slug_sub [] = []"
| "user_slug_sub (c # cs) =
     (if is_slug_char c then c # user_slug_sub cs
      else hyphen # user_slug_sub (dropWhile (\<lambda>d. \<not> is_slug_char d) cs))"
  by pat_completeness auto
termination
  by (relation "measure length") (auto simp: less_Suc_eq_le length_dropWhile_le)

definition slugify_user :: "unicode_db \<Rightarrow> unicode \<Rightarrow> unicode" where
  "slugify_user T v =
     (let slug = user_slug_sub (str_lower T (str_strip T v));
          slug = py_strip_chars (\<lambda>c. c = hyphen) slug
      in if slug = [] then code_points ''user'' else slug)"



subsection \<open>Hostname templates\<close>

record DomainConfig =
  name :: string
  cfg_sheet_id :: string
  cfg_worksheet :: string
  hostname_template :: string
  ou_path :: "string option"

text \<open>
  \<open>build_hostname\<close> is \<open>hostname_template.format(seq=seq, user=username)\<close>. The model
  covers the templates made of literal text, the escapes \<open>{{\<close> and \<open>}}\<close>, and the
  fields \<open>{seq}\<close> and \<open>{user}\<close> with a format specification of the form
  \<open>[0][width][d]\<close> for the integer and \<open>[s]\<close> for the string. A template outside this
  fragment (a conversion, an attribute or index, another specification) gives
  \<open>NotModelled\<close>, which is no exception of Python's but the model's own limit.
\<close>

datatype piece = Lit char | Field string string

text \<open>A field \<open>name\<close> or \<open>name:spec\<close>.\<close>

definition split_field :: "string \<Rightarrow> piece" where
  "split_field f =
     (let n = takeWhile (\<lambda>c. c \<noteq> CHR '':'') f
      in Field n (drop (Suc (length n)) f))"

text \<open>The scanner: \<open>None\<close> while in literal text, \<open>Some acc\<close> inside a replacement field
  whose characters so far are \<open>acc\<close>, last first.\<close>

fun parse_from :: "string option \<Rightarrow> string \<Rightarrow> error + piece list" where
  "parse_from None [] = Inr []"
| "parse_from None (c # cs) =
     (if c = CHR ''{'' then
        (case cs of
           [] \<Rightarrow> Inl ValueError
         | d # ds \<Rightarrow>
             if d = CHR ''{'' then bind (parse_from None ds) (\<lambda>ps. Inr (Lit CHR ''{'' # ps))
             else parse_from (Some []) cs)
      else if c = CHR ''}'' then
        (case cs of
           [] \<Rightarrow> Inl ValueError
         | d # ds \<Rightarrow>
             if d = CHR ''}'' then bind (parse_from None ds) (\<lambda>ps. Inr (Lit CHR ''}'' # ps))
             else Inl ValueError)
      else bind (parse_from None cs) (\<lambda>ps. Inr (Lit c # ps)))"
| "parse_from (Some acc) [] = Inl ValueError"
| "parse_from (Some acc) (c # cs) =
     (if c = CHR ''}'' then bind (parse_from None cs) (\<lambda>ps. Inr (split_field (rev acc) # ps))
      else if c = CHR ''{'' then (if CHR ''}'' \<in> set cs then Inl NotModelled else Inl ValueError)
      else parse_from (Some (c # acc)) cs)"

definition parse_template :: "string \<Rightarrow> error + piece list" where
  "parse_template t = parse_from None t"

text \<open>\<open>format(n, spec)\<close> for an \<open>int\<close> and \<open>spec\<close> of the form \<open>[0][width][d]\<close>: the
  sign, then zeros up to the width when the zero flag is set, else blanks before the
  sign.\<close>

definition format_int :: "int \<Rightarrow> string \<Rightarrow> error + string" where
  "format_int n spec =
     (let zero = (spec \<noteq> [] \<and> hd spec = CHR ''0'');
          wtxt = takeWhile is_ascii_digit spec;
          rest = dropWhile is_ascii_digit spec;
          width = digits_value wtxt;
          sign = (if n < 0 then ''-'' else '''');
          digits = dec (nat \<bar>n\<bar>);
          pad = width - (length sign + length digits)
      in if rest = [] \<or> rest = ''d''
         then Inr (if zero then sign @ replicate pad CHR ''0'' @ digits
                   else replicate pad CHR '' '' @ sign @ digits)
         else Inl NotModelled)"

definition format_str :: "string \<Rightarrow> string \<Rightarrow> error + string" where
  "format_str s spec = (if spec = [] \<or> spec = ''s'' then Inr s else Inl NotModelled)"

text \<open>A field name is looked up among the keyword arguments \<open>seq\<close> and \<open>user\<close>; an empty
  or numeric name asks for a positional argument, of which there is none.\<close>

definition plain_name :: "string \<Rightarrow> bool" where
  "plain_name n = list_all (\<lambda>c. c \<noteq> CHR ''.'' \<and> c \<noteq> CHR ''['' \<and> c \<noteq> CHR ''!'') n"

fun format_piece :: "int \<Rightarrow> string \<Rightarrow> piece \<Rightarrow> error + string" where
  "format_piece seq user (Lit c) = Inr [c]"
| "format_piece seq user (Field n spec) =
     (if \<not> plain_name n then Inl NotModelled
      else if n = ''seq'' then format_int seq spec
      else if n = ''user'' then format_str user spec
      else if list_all is_ascii_digit n then Inl IndexError
      else Inl (KeyError n))"

fun format_pieces :: "int \<Rightarrow> string \<Rightarrow> piece list \<Rightarrow> error + string" where
  "format_pieces seq user [] = Inr []"
| "format_pieces seq user (p # ps) =
     bind (format_piece seq user p) (\<lambda>a.
     bind (format_pieces seq user ps) (\<lambda>b. Inr (a @ b)))"

definition py_format :: "string \<Rightarrow> int \<Rightarrow> string \<Rightarrow> error + string" where
  "py_format template seq user = bind (parse_template template) (format_pieces seq user)"

definition build_hostname :: "DomainConfig \<Rightarrow> int \<Rightarrow> string \<Rightarrow> error + string" where
  "build_hostname cfg seq username = py_format (hostname_template cfg) seq username"

subsection \<open>Loading the configuration\<close>

text \<open>
  \<open>AppConfig\<close> and \<open>load_config\<close>, on the parsed JSON document. The fields of a
  \<open>DomainConfig\<close> are modelled as strings; a document that holds a value of another type
  where a string belongs gives \<open>NotModelled\<close>.
\<close>

record AppConfig =
  google_credentials :: "string option"
  domains :: "string \<Rightarrow> DomainConfig option"

definition get_domain :: "AppConfig \<Rightarrow> string \<Rightarrow> error + DomainConfig" where
  "get_domain config nm =
     (let key = py_lower nm
      in case domains config key of None \<Rightarrow> Inl (KeyError nm) | Some d \<Rightarrow> Inr d)"

definition domain_config_of :: "string \<Rightarrow> pyval \<Rightarrow> error + DomainConfig" where
  "domain_config_of key v =
     bind (py_getitem v ''sheet_id'') (\<lambda>sid.
     bind (py_get v ''worksheet'' (PStr ''Devices'')) (\<lambda>ws.
     bind (py_get v ''hostname_template'' (PStr ''{seq:03d}-{user}'')) (\<lambda>tpl.
     bind (py_get v ''ou_path'' PNone) (\<lambda>ou.
       case (sid, ws, tpl, ou) of
         (PStr a, PStr b, PStr c, PNone) \<Rightarrow>
           Inr \<lparr> name = key, cfg_sheet_id = a, cfg_worksheet = b, hostname_template = c,
                 ou_path = None \<rparr>
       | (PStr a, PStr b, PStr c, PStr d) \<Rightarrow>
           Inr \<lparr> name = key, cfg_sheet_id = a, cfg_worksheet = b, hostname_template = c,
                 ou_path = Some d \<rparr>
       | _ \<Rightarrow> Inl NotModelled))))"

text \<open>The loop \<open>for key, value in data.get("domains", {}).items()\<close>.\<close>

fun build_domains ::
  "(string \<times> pyval) list \<Rightarrow> (string \<Rightarrow> DomainConfig option)
     \<Rightarrow> error + (string \<Rightarrow> DomainConfig option)" where
  "build_domains [] acc = Inr acc"
| "build_domains ((key, v) # items) acc =
     bind (domain_config_of key v) (\<lambda>d. build_domains items (acc(py_lower key \<mapsto> d)))"

fun py_items :: "pyval \<Rightarrow> error + (string \<times> pyval) list" where
  "py_items (PDict kvs) = Inr kvs"
| "py_items _ = Inl AttributeError"

definition load_config_doc :: "pyval \<Rightarrow> error + AppConfig" where
  "load_config_doc data =
     bind (py_get data ''google_credentials'' PNone) (\<lambda>cp.
     bind (if py_truthy cp
           then (case cp of PStr s \<Rightarrow> Inr (Some s) | _ \<Rightarrow> Inl TypeError)
           else Inr None) (\<lambda>creds.
     bind (py_get data ''domains'' (PDict [])) (\<lambda>dv.
     bind (py_items dv) (\<lambda>items.
     bind (build_domains items Map.empty) (\<lambda>doms.
       if items = [] then Inl ValueError
       else Inr \<lparr> google_credentials = creds, domains = doms \<rparr>)))))"

section \<open>state.py\<close>

text \<open>
  The dataclasses. Python does not enforce the annotations (\<open>version: int\<close>, the others
  \<open>str\<close>), and \<open>from_json\<close> stores whatever the document holds, so a field holds a
  \<^typ>\<open>pyval\<close>.
\<close>

record Secrets =
  local_admin_password :: pyval
  domain_username :: pyval
  domain_password :: pyval

record SetupState =
  version :: pyval
  domain :: pyval
  assigned_user :: pyval
  computer_name :: pyval
  initial_user :: pyval
  local_admin_user :: pyval
  sheet_id :: pyval
  worksheet :: pyval
  sheet_range :: pyval
  secrets :: Secrets

definition create ::
  "pyval \<Rightarrow> pyval \<Rightarrow> pyval \<Rightarrow> pyval \<Rightarrow> pyval \<Rightarrow> pyval \<Rightarrow> pyval \<Rightarrow> pyval \<Rightarrow> Secrets \<Rightarrow> SetupState" where
  "create dmn au cn iu la sid ws sr sec =
     \<lparr> version = PInt 1, domain = dmn, assigned_user = au, computer_name = cn,
       initial_user = iu, local_admin_user = la, sheet_id = sid, worksheet = ws,
       sheet_range = sr, secrets = sec \<rparr>"

text \<open>\<open>to_json\<close> is \<open>dataclasses.asdict\<close>: the fields in declaration order, the nested
  dataclass as a nested \<open>dict\<close>.\<close>

definition to_json :: "SetupState \<Rightarrow> pyval" where
  "to_json s =
     PDict [(''version'', version s), (''domain'', domain s),
            (''assigned_user'', assigned_user s), (''computer_name'', computer_name s),
            (''initial_user'', initial_user s), (''local_admin_user'', local_admin_user s),
            (''sheet_id'', sheet_id s), (''worksheet'', worksheet s),
            (''sheet_range'', sheet_range s),
            (''secrets'', PDict [(''local_admin_password'', local_admin_password (secrets s)),
                                 (''domain_username'', domain_username (secrets s)),
                                 (''domain_password'', domain_password (secrets s))])]"

text \<open>\<open>from_json\<close>: \<open>secrets = data.get("secrets") or {}\<close>, then the constructor's
  arguments in the order written, each lookup raising on its own.\<close>

definition from_json :: "pyval \<Rightarrow> error + SetupState" where
  "from_json data =
     bind (py_get data ''secrets'' PNone) (\<lambda>sv.
     let sec = (if py_truthy sv then sv else PDict []) in
     bind (py_get data ''version'' (PInt 1)) (\<lambda>ver.
     bind (py_getitem data ''domain'') (\<lambda>dmn.
     bind (py_getitem data ''assigned_user'') (\<lambda>au.
     bind (py_getitem data ''computer_name'') (\<lambda>cn.
     bind (py_getitem data ''initial_user'') (\<lambda>iu.
     bind (py_getitem data ''local_admin_user'') (\<lambda>la.
     bind (py_getitem data ''sheet_id'') (\<lambda>sid.
     bind (py_getitem data ''worksheet'') (\<lambda>ws.
     bind (py_getitem data ''sheet_range'') (\<lambda>sr.
     bind (py_getitem sec ''local_admin_password'') (\<lambda>lap.
     bind (py_getitem sec ''domain_username'') (\<lambda>du.
     bind (py_getitem sec ''domain_password'') (\<lambda>dp.
       Inr \<lparr> version = ver, domain = dmn, assigned_user = au, computer_name = cn,
             initial_user = iu, local_admin_user = la, sheet_id = sid, worksheet = ws,
             sheet_range = sr,
             secrets = \<lparr> local_admin_password = lap, domain_username = du,
                         domain_password = dp \<rparr> \<rparr>)))))))))))))"

subsection \<open>The file system the state file lives in\<close>

text \<open>
  A path is its list of components below the root; a node is a directory or a file, and a
  file holds a JSON document (what \<open>json.dump\<close> wrote and \<open>json.load\<close> reads back) or
  text that is not JSON. The root is a directory. Access rights are not modelled: every
  node can be read, written and removed, except that a directory is not a file.
\<close>

type_synonym path = "string list"

datatype content = JsonText pyval | NotJson

datatype node = File content | Directory

type_synonym filesystem = "path \<Rightarrow> node option"

definition is_dir :: "filesystem \<Rightarrow> path \<Rightarrow> bool" where
  "is_dir fs p = (p = [] \<or> fs p = Some Directory)"

definition STATE_DIR :: path where
  "STATE_DIR = [''C:'', ''ProgramData'', ''ComputerSetup'']"

definition STATE_FILE :: path where
  "STATE_FILE = STATE_DIR @ [''state.json'']"

text \<open>\<open>Path.mkdir(parents=True, exist_ok=True)\<close>: the ancestors first, then the directory;
  a file in the way is a \<open>FileExistsError\<close>.\<close>

fun mkdir_parents :: "path \<Rightarrow> filesystem \<Rightarrow> error + filesystem" where
  "mkdir_parents [] fs = Inr fs"
| "mkdir_parents p fs =
     bind (mkdir_parents (butlast p) fs) (\<lambda>fs'.
       case fs' p of
         None \<Rightarrow> Inr (fs'(p \<mapsto> Directory))
       | Some Directory \<Rightarrow> Inr fs'
       | Some (File c) \<Rightarrow> Inl FileExistsError)"

declare mkdir_parents.simps(2) [simp del]

text \<open>\<open>path.open("w")\<close> followed by the write of one document.\<close>

definition write_file :: "path \<Rightarrow> content \<Rightarrow> filesystem \<Rightarrow> error + filesystem" where
  "write_file p c fs =
     (if is_dir fs p then Inl PermissionError
      else if \<not> is_dir fs (butlast p) then Inl FileNotFoundError
      else Inr (fs(p \<mapsto> File c)))"

text \<open>\<open>path.open("r")\<close> followed by \<open>json.load\<close>.\<close>

definition read_json :: "path \<Rightarrow> filesystem \<Rightarrow> error + pyval" where
  "read_json p fs =
     (if p = [] then Inl PermissionError
      else case fs p of
         None \<Rightarrow> Inl FileNotFoundError
       | Some Directory \<Rightarrow> Inl PermissionError
       | Some (File NotJson) \<Rightarrow> Inl JSONDecodeError
       | Some (File (JsonText v)) \<Rightarrow> Inr v)"

definition save_state :: "SetupState \<Rightarrow> path \<Rightarrow> filesystem \<Rightarrow> error + (path \<times> filesystem)" where
  "save_state state p fs =
     bind (mkdir_parents STATE_DIR fs) (\<lambda>fs1.
     let payload = to_json state in
     bind (write_file p (JsonText payload) fs1) (\<lambda>fs2.
       Inr (p, fs2)))"

definition load_state :: "path \<Rightarrow> filesystem \<Rightarrow> error + SetupState" where
  "load_state p fs = bind (read_json p fs) from_json"

text \<open>\<open>Path.exists\<close> and \<open>Path.unlink\<close>; \<open>unlink\<close> removes a file and refuses a
  directory.\<close>

definition path_exists :: "filesystem \<Rightarrow> path \<Rightarrow> bool" where
  "path_exists fs p = (p = [] \<or> fs p \<noteq> None)"

definition unlink :: "path \<Rightarrow> filesystem \<Rightarrow> error + filesystem" where
  "unlink p fs =
     (if p = [] then Inl PermissionError
      else case fs p of
         None \<Rightarrow> Inl FileNotFoundError
       | Some (File c) \<Rightarrow> Inr (fs(p := None))
       | Some Directory \<Rightarrow> Inl PermissionError)"

definition clear_state :: "path \<Rightarrow> filesystem \<Rightarrow> error + filesystem" where
  "clear_state p fs = (if path_exists fs p then unlink p fs else Inr fs)"

subsection \<open>Documents that \<open>from_json\<close> accepts\<close>





section \<open>sheets.py\<close>

subsection \<open>The ledger\<close>

text \<open>
  A cell of a record read by \<open>get_all_records\<close> is an \<open>int\<close>, a \<open>float\<close> or a \<open>str\<close>.
  A worksheet is its rows from the top, each a list of cells; the service holds the
  worksheets by spreadsheet key and title. The ledger hands back the values as they were
  appended. How a \<open>float\<close> prints is a table of the interpreter's, taken as the parameter
  \<open>frepr\<close>.
\<close>

datatype cell = CInt int | CFloat pyfloat | CStr string

type_synonym grid = "cell list list"

type_synonym sheets = "string \<times> string \<Rightarrow> grid option"

type_synonym row_record = "(string \<times> cell) list"

definition HEADERS :: "string list" where
  "HEADERS = [''Domain'', ''Sequence'', ''Hostname'', ''AssignedUser'', ''Status'',
     ''Timestamp'', ''Notes'']"

fun py_str :: "(pyfloat \<Rightarrow> string) \<Rightarrow> cell \<Rightarrow> string" where
  "py_str frepr (CInt n) = py_str_int n"
| "py_str frepr (CFloat f) = frepr f"
| "py_str frepr (CStr s) = s"

fun py_int :: "cell \<Rightarrow> error + int" where
  "py_int (CInt n) = Inr n"
| "py_int (CFloat f) = py_int_float f"
| "py_int (CStr s) = py_int_str s"

text \<open>\<open>row.get(key, default)\<close> on a record.\<close>

definition row_get :: "row_record \<Rightarrow> string \<Rightarrow> cell \<Rightarrow> cell" where
  "row_get row k dflt = (case map_of row k of None \<Rightarrow> dflt | Some v \<Rightarrow> v)"

text \<open>\<open>ws.row_values(1)\<close>: the texts of the first row, without the empty cells at its
  end.\<close>

definition row_values1 :: "(pyfloat \<Rightarrow> string) \<Rightarrow> grid \<Rightarrow> string list" where
  "row_values1 frepr g =
     (case g of [] \<Rightarrow> []
      | r # rs \<Rightarrow> rev (dropWhile (\<lambda>t. t = []) (rev (map (py_str frepr) r))))"

text \<open>\<open>_ensure_header\<close>: a first row that is not the seven headers is overwritten, in its
  columns A to G, by them.\<close>

definition ensure_header :: "(pyfloat \<Rightarrow> string) \<Rightarrow> grid \<Rightarrow> grid" where
  "ensure_header frepr g =
     (if row_values1 frepr g \<noteq> HEADERS
      then (case g of [] \<Rightarrow> [map CStr HEADERS]
            | r # rs \<Rightarrow> (map CStr HEADERS @ drop 7 r) # rs)
      else g)"

text \<open>\<open>_worksheet\<close>: open the worksheet and see to its header.\<close>

definition open_worksheet ::
  "(pyfloat \<Rightarrow> string) \<Rightarrow> string \<Rightarrow> string \<Rightarrow> sheets \<Rightarrow> (error + grid) \<times> sheets" where
  "open_worksheet frepr sid title st =
     (case st (sid, title) of
        None \<Rightarrow> (Inl WorksheetNotFound, st)
      | Some g \<Rightarrow> (Inr (ensure_header frepr g), st((sid, title) \<mapsto> ensure_header frepr g)))"

text \<open>\<open>ws.get_all_records()\<close>: one record per row below the header, keyed by the
  headers, a short row filled up with empty strings.\<close>

definition to_record :: "cell list \<Rightarrow> row_record" where
  "to_record r = zip HEADERS (r @ replicate (7 - length r) (CStr ''''))"

definition get_all_records :: "grid \<Rightarrow> row_record list" where
  "get_all_records g = map to_record (tl g)"

text \<open>\<open>ws.append_row(row)\<close>: the row goes below the last one; the answer names the range
  it went to.\<close>

definition append_row :: "string \<Rightarrow> cell list \<Rightarrow> grid \<Rightarrow> string \<times> grid" where
  "append_row title row g =
     (let n = Suc (length g)
      in (title @ ''!A'' @ dec n @ '':G'' @ dec n, g @ [row]))"

subsection \<open>\<open>reserve_name\<close>\<close>

text \<open>The loop over the records: a row of the domain whose sequence \<open>int\<close> refuses with a
  \<open>ValueError\<close> is passed over; any other exception leaves the loop and the function.\<close>

fun scan_max_seq ::
  "(pyfloat \<Rightarrow> string) \<Rightarrow> string \<Rightarrow> row_record list \<Rightarrow> int \<Rightarrow> error + int" where
  "scan_max_seq frepr domain_lower [] max_seq = Inr max_seq"
| "scan_max_seq frepr domain_lower (row # rows) max_seq =
     (if py_lower (py_strip (py_str frepr (row_get row ''Domain'' (CStr '''')))) = domain_lower
      then (case py_int (row_get row ''Sequence'' (CInt 0)) of
              Inr seq \<Rightarrow> scan_max_seq frepr domain_lower rows (max max_seq seq)
            | Inl e \<Rightarrow> if e = ValueError then scan_max_seq frepr domain_lower rows max_seq
                       else Inl e)
      else scan_max_seq frepr domain_lower rows max_seq)"

text \<open>\<open>xs[i]\<close> on a list, and the row number
  \<open>int(updated_range.split("!")[1].split(":")[0][1:])\<close>.\<close>

definition py_index :: "'a list \<Rightarrow> nat \<Rightarrow> error + 'a" where
  "py_index xs i = (if i < length xs then Inr (xs ! i) else Inl IndexError)"

definition parse_updated_range :: "string \<Rightarrow> error + int" where
  "parse_updated_range updated_range =
     bind (py_index (py_split CHR ''!'' updated_range) 1) (\<lambda>a.
     bind (py_index (py_split CHR '':'' a) 0) (\<lambda>b.
       py_int_str (drop 1 b)))"

text \<open>
  The first half of \<open>reserve_name\<close>, up to the hostname: one read of the ledger. The
  second half: one append to it. \<open>now\<close> is the clock's reading.
\<close>

definition reserve_read ::
  "(pyfloat \<Rightarrow> string) \<Rightarrow> string \<Rightarrow> string \<Rightarrow> string \<Rightarrow> (int \<Rightarrow> error + string) \<Rightarrow> sheets
     \<Rightarrow> (error + int \<times> string) \<times> sheets" where
  "reserve_read frepr dmn sid title hostname_factory st =
     (case open_worksheet frepr sid title st of
        (Inl e, st1) \<Rightarrow> (Inl e, st1)
      | (Inr ws, st1) \<Rightarrow>
          (bind (scan_max_seq frepr (py_lower dmn) (get_all_records ws) 0) (\<lambda>max_seq.
           let next_seq = max_seq + 1 in
           bind (hostname_factory next_seq) (\<lambda>hostname.
             Inr (next_seq, hostname))), st1))"

definition reserve_append ::
  "string \<Rightarrow> string \<Rightarrow> string \<Rightarrow> string \<Rightarrow> string \<Rightarrow> int \<times> string \<Rightarrow> sheets
     \<Rightarrow> (error + int \<times> string \<times> string) \<times> sheets" where
  "reserve_append now dmn assigned sid title nh st =
     (case nh of (next_seq, hostname) \<Rightarrow>
      case st (sid, title) of
        None \<Rightarrow> (Inl APIError, st)
      | Some g \<Rightarrow>
          let row = [CStr dmn, CInt next_seq, CStr hostname, CStr assigned, CStr ''Pending'',
                     CStr now, CStr ''''];
              (updated_range, g') = append_row title row g
          in (bind (parse_updated_range updated_range) (\<lambda>row_number.
                Inr (next_seq, hostname,
                     title @ ''!A'' @ py_str_int row_number @ '':G'' @ py_str_int row_number)),
              st((sid, title) \<mapsto> g')))"

definition reserve_name ::
  "(pyfloat \<Rightarrow> string) \<Rightarrow> string \<Rightarrow> string \<Rightarrow> string \<Rightarrow> string \<Rightarrow> string
     \<Rightarrow> (int \<Rightarrow> error + string) \<Rightarrow> sheets \<Rightarrow> (error + int \<times> string \<times> string) \<times> sheets" where
  "reserve_name frepr now dmn assigned sid title hostname_factory st =
     (case reserve_read frepr dmn sid title hostname_factory st of
        (Inl e, st1) \<Rightarrow> (Inl e, st1)
      | (Inr nh, st1) \<Rightarrow> reserve_append now dmn assigned sid title nh st1)"

subsection \<open>\<open>update_status\<close>\<close>

text \<open>The row number \<open>int("".join(filter(str.isdigit, start_cell)))\<close> of a stored range
  such as \<open>Devices!A5:G5\<close>.\<close>

definition row_number_of :: "string \<Rightarrow> error + int" where
  "row_number_of row_range =
     (let parts = py_split CHR ''!'' row_range;
          range_part = last parts;
          start_cell = hd (py_split CHR '':'' range_part)
      in py_int_str (filter py_isdigit start_cell))"

text \<open>\<open>ws.update("E{n}:G{n}", [[status, timestamp, notes]])\<close>: the service refuses a row
  number below one and fills the sheet up to a row beyond its end.\<close>

definition update_row :: "int \<Rightarrow> cell list \<Rightarrow> grid \<Rightarrow> error + grid" where
  "update_row n vals g =
     (if n < 1 then Inl APIError
      else let i = nat n - 1;
               g1 = g @ replicate (Suc i - length g) [];
               r = g1 ! i;
               r1 = r @ replicate (4 - length r) (CStr '''')
           in Inr (g1[i := take 4 r1 @ vals @ drop 7 r1]))"

definition update_status ::
  "(pyfloat \<Rightarrow> string) \<Rightarrow> string \<Rightarrow> string \<Rightarrow> string \<Rightarrow> string \<Rightarrow> string \<Rightarrow> string \<Rightarrow> sheets
     \<Rightarrow> (error + unit) \<times> sheets" where
  "update_status frepr now sid title row_range status notes st =
     (case open_worksheet frepr sid title st of
        (Inl e, st1) \<Rightarrow> (Inl e, st1)
      | (Inr ws, st1) \<Rightarrow>
          (case bind (row_number_of row_range) (\<lambda>n.
                  update_row n [CStr status, CStr now, CStr notes] ws) of
             Inl e \<Rightarrow> (Inl e, st1)
           | Inr g \<Rightarrow> (Inr (), st1((sid, title) \<mapsto> g))))"

subsection \<open>Calls in sequence and calls interleaved\<close>

text \<open>A call of \<open>reserve_name\<close> brings its clock reading, its user and its hostname
  factory; \<open>reserve_sequence\<close> makes the calls one after the other on the same domain and
  worksheet and stops at the first exception.\<close>

type_synonym call = "string \<times> string \<times> (int \<Rightarrow> error + string)"

fun reserve_sequence ::
  "(pyfloat \<Rightarrow> string) \<Rightarrow> call list \<Rightarrow> string \<Rightarrow> string \<Rightarrow> string \<Rightarrow> sheets
     \<Rightarrow> (error + (int \<times> string \<times> string) list) \<times> sheets" where
  "reserve_sequence frepr [] dmn sid title st = (Inr [], st)"
| "reserve_sequence frepr ((now, assigned, factory) # calls) dmn sid title st =
     (case reserve_name frepr now dmn assigned sid title factory st of
        (Inl e, st1) \<Rightarrow> (Inl e, st1)
      | (Inr r, st1) \<Rightarrow>
          (case reserve_sequence frepr calls dmn sid title st1 of
             (Inl e, st2) \<Rightarrow> (Inl e, st2)
           | (Inr rs, st2) \<Rightarrow> (Inr (r # rs), st2)))"

text \<open>The row that a call appends.\<close>

definition pending_row :: "string \<Rightarrow> call \<Rightarrow> int \<times> string \<times> string \<Rightarrow> cell list" where
  "pending_row dmn c r =
     (case c of (now, assigned, factory) \<Rightarrow>
      case r of (n, hostname, ref) \<Rightarrow>
        [CStr dmn, CInt n, CStr hostname, CStr assigned, CStr ''Pending'', CStr now, CStr ''''])"

text \<open>
  Two machines against one ledger: \<open>reserve_name\<close> meets the ledger twice, once to read
  and once to append, and another machine's request may be served in between. A client is
  before its read, between read and append with what it computed, or done.
\<close>

datatype phase =
    Calling
  | Holding "int \<times> string"
  | Returned "int \<times> string \<times> string"
  | Raised error

fun client_step ::
  "(pyfloat \<Rightarrow> string) \<Rightarrow> string \<Rightarrow> string \<Rightarrow> string \<Rightarrow> call \<Rightarrow> phase \<Rightarrow> sheets
     \<Rightarrow> (phase \<times> sheets) option" where
  "client_step frepr dmn sid title (now, assigned, factory) Calling st =
     (case reserve_read frepr dmn sid title factory st of
        (Inl e, st1) \<Rightarrow> Some (Raised e, st1)
      | (Inr nh, st1) \<Rightarrow> Some (Holding nh, st1))"
| "client_step frepr dmn sid title (now, assigned, factory) (Holding nh) st =
     (case reserve_append now dmn assigned sid title nh st of
        (Inl e, st1) \<Rightarrow> Some (Raised e, st1)
      | (Inr r, st1) \<Rightarrow> Some (Returned r, st1))"
| "client_step frepr dmn sid title c (Returned r) st = None"
| "client_step frepr dmn sid title c (Raised e) st = None"

inductive interleaved ::
  "(pyfloat \<Rightarrow> string) \<Rightarrow> string \<Rightarrow> string \<Rightarrow> string \<Rightarrow> call \<Rightarrow> call
     \<Rightarrow> phase \<times> phase \<times> sheets \<Rightarrow> phase \<times> phase \<times> sheets \<Rightarrow> bool"
  for frepr dmn sid title ca cb where
    refl: "interleaved frepr dmn sid title ca cb k k"
  | left: "interleaved frepr dmn sid title ca cb k (pa, pb, st)
           \<Longrightarrow> client_step frepr dmn sid title ca pa st = Some (pa', st')
           \<Longrightarrow> interleaved frepr dmn sid title ca cb k (pa', pb, st')"
  | right: "interleaved frepr dmn sid title ca cb k (pa, pb, st)
           \<Longrightarrow> client_step frepr dmn sid title cb pb st = Some (pb', st')
           \<Longrightarrow> interleaved frepr dmn sid title ca cb k (pa, pb', st')"

subsection \<open>The next sequence number in the words of the specification\<close>





section \<open>windows.py\<close>

text \<open>
  The functions of \<open>windows.py\<close> that phase 2 calls act on the machine through
  PowerShell, the registry and \<open>shutdown.exe\<close>. The model keeps each call with its
  arguments; whether the machine carries it out is the environment's answer \<open>os_ok\<close>.
\<close>

datatype os_call =
    ClearAutologon
  | RemoveLocalUser string
  | JoinDomain string string unicode "string option" bool
  | RestartComputer nat

text \<open>The exception of a call that the machine refuses: \<open>_run_powershell\<close> raises
  \<open>CommandError\<close>, the registry an \<open>OSError\<close>, \<open>subprocess.run(check=True)\<close> a
  \<open>CalledProcessError\<close>.\<close>

fun refusal :: "os_call \<Rightarrow> error" where
  "refusal ClearAutologon = OSError"
| "refusal (RemoveLocalUser u) = CommandError"
| "refusal (JoinDomain d u p ou r) = CommandError"
| "refusal (RestartComputer n) = CalledProcessError"

section \<open>cli.py\<close>

text \<open>The reservation of \<open>_initial_run\<close>: the user is slugified, and the hostname factory
  is the domain's template applied to the sequence number and the slug. The slug holds
  ASCII code points only and is handed on as text.\<close>

definition initial_run_reserve ::
  "unicode_db \<Rightarrow> (pyfloat \<Rightarrow> string) \<Rightarrow> string \<Rightarrow> DomainConfig \<Rightarrow> string \<Rightarrow> unicode \<Rightarrow> sheets
     \<Rightarrow> (error + int \<times> string \<times> string) \<times> sheets" where
  "initial_run_reserve T frepr now domain_config domain_arg user_arg st =
     (let assigned_slug = text_of (slugify_user T user_arg)
      in reserve_name frepr now domain_arg assigned_slug (cfg_sheet_id domain_config)
           (cfg_worksheet domain_config)
           (\<lambda>n. build_hostname domain_config n assigned_slug) st)"

subsection \<open>Phase 2: \<open>_post_login\<close>\<close>

text \<open>
  What the phase reads from its surroundings and does not change: whether the session is
  elevated, the machine's answers to the calls, the data protection interface, the
  printer of floats, the clock and the resolution of a path text. What it changes: the
  file system, the ledger, and the calls made on the machine so far, in order.
\<close>

record environment =
  elevated :: bool
  os_ok :: "os_call \<Rightarrow> bool"
  platform :: dpapi
  float_text :: "pyfloat \<Rightarrow> string"
  clock :: string
  resolve_path :: "string \<Rightarrow> path"

record world =
  files :: filesystem
  ledger :: sheets
  os_calls :: "os_call list"

record post_login_args =
  state_arg :: path
  config_arg :: path
  google_credentials_arg :: "string option"
  no_restart :: bool

text \<open>Sequencing of steps that may raise and may change the world; a raised exception
  keeps the world as the step left it.\<close>

definition wbind ::
  "(world \<Rightarrow> (error + 'a) \<times> world) \<Rightarrow> ('a \<Rightarrow> world \<Rightarrow> (error + 'b) \<times> world)
     \<Rightarrow> world \<Rightarrow> (error + 'b) \<times> world" where
  "wbind m f w = (case m w of (Inl e, w') \<Rightarrow> (Inl e, w') | (Inr x, w') \<Rightarrow> f x w')"

definition lift :: "error + 'a \<Rightarrow> world \<Rightarrow> (error + 'a) \<times> world" where
  "lift r w = (r, w)"

text \<open>A step that reads the files, one that rewrites them, and one on the ledger.\<close>

definition read_files :: "(filesystem \<Rightarrow> error + 'a) \<Rightarrow> world \<Rightarrow> (error + 'a) \<times> world" where
  "read_files f w = (f (files w), w)"

definition on_files :: "(filesystem \<Rightarrow> error + filesystem) \<Rightarrow> world \<Rightarrow> (error + unit) \<times> world" where
  "on_files f w = (case f (files w) of Inl e \<Rightarrow> (Inl e, w) | Inr fs \<Rightarrow> (Inr (), w\<lparr> files := fs \<rparr>))"

definition on_ledger :: "(sheets \<Rightarrow> (error + unit) \<times> sheets) \<Rightarrow> world \<Rightarrow> (error + unit) \<times> world" where
  "on_ledger f w = (case f (ledger w) of (r, st) \<Rightarrow> (r, w\<lparr> ledger := st \<rparr>))"

text \<open>A call on the machine is recorded, then answered.\<close>

definition os_do :: "environment \<Rightarrow> os_call \<Rightarrow> world \<Rightarrow> (error + unit) \<times> world" where
  "os_do env c w =
     (if os_ok env c then Inr () else Inl (refusal c), w\<lparr> os_calls := os_calls w @ [c] \<rparr>)"

text \<open>A method of \<open>str\<close> called on a field of the state: another type has no such
  attribute.\<close>

fun as_str :: "pyval \<Rightarrow> error + string" where
  "as_str (PStr s) = Inr s"
| "as_str _ = Inl AttributeError"

text \<open>\<open>_resolve_config\<close> (the path is never \<open>None\<close>, the parser has a default) and
  \<open>_resolve_credentials_path\<close>.\<close>

definition resolve_config :: "path \<Rightarrow> filesystem \<Rightarrow> error + AppConfig" where
  "resolve_config p fs =
     (if \<not> path_exists fs p then Inl FileNotFoundError
      else bind (read_json p fs) load_config_doc)"

definition resolve_credentials_path ::
  "environment \<Rightarrow> string option \<Rightarrow> AppConfig \<Rightarrow> error + path" where
  "resolve_credentials_path env args_value config =
     (case args_value of
        Some a \<Rightarrow> if a \<noteq> [] then Inr (resolve_path env a)
                  else (case google_credentials config of
                          Some c \<Rightarrow> Inr (resolve_path env c) | None \<Rightarrow> Inl ValueError)
      | None \<Rightarrow> (case google_credentials config of
                   Some c \<Rightarrow> Inr (resolve_path env c) | None \<Rightarrow> Inl ValueError))"

text \<open>\<open>SheetsClient(path)\<close>: the credentials file has to exist; what the service makes of
  it is not modelled.\<close>

definition sheets_client :: "path \<Rightarrow> filesystem \<Rightarrow> error + unit" where
  "sheets_client p fs = (if path_exists fs p then Inr () else Inl FileNotFoundError)"

text \<open>\<open>sheets.update_status\<close> with fields of the state: a sheet id or title that is no
  string names no worksheet, and \<open>row_range.split\<close> needs a string.\<close>

definition update_status_of ::
  "environment \<Rightarrow> pyval \<Rightarrow> pyval \<Rightarrow> pyval \<Rightarrow> string \<Rightarrow> string \<Rightarrow> sheets
     \<Rightarrow> (error + unit) \<times> sheets" where
  "update_status_of env sid title row_range status notes st =
     (case (sid, title) of
        (PStr s, PStr t) \<Rightarrow>
          (case row_range of
             PStr r \<Rightarrow> update_status (float_text env) (clock env) s t r status notes st
           | _ \<Rightarrow> (case open_worksheet (float_text env) s t st of
                     (Inl e, st1) \<Rightarrow> (Inl e, st1)
                   | (Inr ws, st1) \<Rightarrow> (Inl AttributeError, st1)))
      | _ \<Rightarrow> (Inl WorksheetNotFound, st))"

text \<open>
  \<open>_post_login\<close>, statement by statement; the \<open>print\<close>s are left out. \<open>finish_login\<close> is
  its second part, from \<open>windows.clear_autologon()\<close> on, with the state, the domain's
  settings and the unprotected password that the first part hands over. The account of
  the build user is removed by the statements
  \<open>if state.initial_user.lower() != state.local_admin_user.lower():
  windows.remove_local_user(state.initial_user)\<close>.
\<close>

definition finish_login ::
  "environment \<Rightarrow> post_login_args \<Rightarrow> SetupState \<Rightarrow> DomainConfig \<Rightarrow> unicode \<Rightarrow> world
     \<Rightarrow> (error + unit) \<times> world" where
  "finish_login env args state domain_config password =
     wbind (os_do env ClearAutologon) (\<lambda>_.
     wbind (lift (bind (as_str (initial_user state)) (\<lambda>iu.
                  bind (as_str (local_admin_user state)) (\<lambda>la.
                    Inr (py_lower iu \<noteq> py_lower la, iu))))) (\<lambda>(differ, iu).
     wbind (if differ then os_do env (RemoveLocalUser iu) else lift (Inr ())) (\<lambda>_.
     wbind (lift (bind (as_str (domain_username (secrets state))) (\<lambda>username.
                  bind (as_str (domain state)) (\<lambda>dmn. Inr (dmn, username))))) (\<lambda>(dmn, username).
     wbind (os_do env (JoinDomain dmn username password (ou_path domain_config) False)) (\<lambda>_.
     wbind (on_ledger (update_status_of env (sheet_id state) (worksheet state) (sheet_range state)
                         ''Joined'' ''Provisioned via computer-setup'')) (\<lambda>_.
     wbind (on_files (clear_state (state_arg args))) (\<lambda>_.
       if \<not> no_restart args then os_do env (RestartComputer 10) else lift (Inr ()))))))))"

definition post_login :: "environment \<Rightarrow> post_login_args \<Rightarrow> world \<Rightarrow> (error + unit) \<times> world" where
  "post_login env args =
     wbind (lift (if elevated env then Inr () else Inl PermissionError)) (\<lambda>_.
     wbind (read_files (load_state (state_arg args))) (\<lambda>state.
     wbind (read_files (resolve_config (config_arg args))) (\<lambda>config.
     wbind (lift (bind (as_str (domain state)) (get_domain config))) (\<lambda>domain_config.
     wbind (lift (resolve_credentials_path env (google_credentials_arg args) config)) (\<lambda>google_creds.
     wbind (read_files (sheets_client google_creds)) (\<lambda>_.
     wbind (lift (unprotect_string (platform env) (domain_password (secrets state)))) (\<lambda>password.
       finish_login env args state domain_config password)))))))"

section \<open>Example inputs\<close>


text \<open>Ledgers for the domain \<open>corp\<close>: one whose third row has text in the sequence column
  and whose fourth belongs to another domain, and one whose only row holds the float 2.5
  (\<open>5 * 2\<^sup>-\<^sup>1\<close>) there.\<close>

definition header_row :: "cell list" where
  "header_row = map CStr HEADERS"



definition ledger_with_infinity :: grid where
  "ledger_with_infinity =
     [header_row,
      [CStr ''corp'', CFloat (Infinite False), CStr ''x'', CStr ''ann'', CStr ''Pending'', CStr ''t1'',
       CStr '''']]"

text \<open>A hostname factory that always answers, the service with one worksheet, and a
  printer of floats for ledgers in which no float is printed.\<close>

definition no_float_text :: "pyfloat \<Rightarrow> string" where
  "no_float_text f = []"


definition plain_factory :: "int \<Rightarrow> error + string" where
  "plain_factory n = Inr (''pc-'' @ py_str_int n)"

definition one_sheet :: "grid \<Rightarrow> sheets" where
  "one_sheet g = Map.empty((''X'', ''Devices'') \<mapsto> g)"

text \<open>A stand-in for the platform's protection: every byte is combined with a fixed
  byte by exclusive or.\<close>

definition xor_dpapi :: dpapi where
  "xor_dpapi =
     \<lparr> CryptProtectData = (\<lambda>d descr fl. Some (map (\<lambda>b. b XOR 0x5A) d)),
       CryptUnprotectData = (\<lambda>p fl. Some (map (\<lambda>b. b XOR 0x5A) p)) \<rparr>"

text \<open>A machine ready for phase 2: elevated, every call accepted, the state of a
  reservation for \<open>corp\<close> on disk beside the configuration and the credentials, the
  pending row in the ledger. The protected password is the Base64 text of the bytes that
  \<open>xor_dpapi\<close> makes of \<open>pw\<close> in UTF-16.\<close>

definition ready_env :: environment where
  "ready_env =
     \<lparr> elevated = True, os_ok = (\<lambda>c. True), platform = xor_dpapi, float_text = no_float_text,
       clock = ''2024-01-01T00:00:00+00:00'', resolve_path = (\<lambda>s. [s]) \<rparr>"

definition ready_state :: "string \<Rightarrow> SetupState" where
  "ready_state build_user =
     create (PStr ''corp'') (PStr ''jane-doe'') (PStr ''001-jane-doe'') (PStr build_user)
       (PStr ''WorkstationAdmin'') (PStr ''X'') (PStr ''Devices'') (PStr ''Devices!A2:G2'')
       \<lparr> local_admin_password = PStr ''KlotWg=='', domain_username = PStr ''join@corp'',
         domain_password = PStr ''KlotWg=='' \<rparr>"

definition ready_config :: pyval where
  "ready_config =
     PDict [(''google_credentials'', PStr ''creds.json''),
            (''domains'', PDict [(''corp'', PDict [(''sheet_id'', PStr ''X'')])])]"

definition ready_world :: "string \<Rightarrow> world" where
  "ready_world build_user =
     \<lparr> files = Map.empty(STATE_FILE \<mapsto> File (JsonText (to_json (ready_state build_user))),
                           [''config.json''] \<mapsto> File (JsonText ready_config),
                           [''creds.json''] \<mapsto> File NotJson),
       ledger = one_sheet [header_row,
                  [CStr ''corp'', CInt 1, CStr ''001-jane-doe'', CStr ''jane-doe'', CStr ''Pending'',
                   CStr ''2023-12-31T00:00:00+00:00'', CStr '''']],
       os_calls = [] \<rparr>"

definition ready_args :: post_login_args where
  "ready_args =
     \<lparr> state_arg = STATE_FILE, config_arg = [''config.json''], google_credentials_arg = None,
       no_restart = False \<rparr>"


text \<open>Unicode tables cut down to U+0000 to U+00FF, U+0130 and the Kelvin sign: the white
  space, the lower-case mappings and the letters, digits and numbers of these code
  points as the Unicode tables have them, and every other code point left alone.\<close>

definition latin_db :: unicode_db where
  "latin_db =
     \<lparr> is_whitespace = (\<lambda>c. c = 0x85 \<or> c = 0xA0),
       to_lower_full = (\<lambda>c. if 0xC0 \<le> c \<and> c \<le> 0xDE \<and> c \<noteq> 0xD7 then [c + 32]
                             else if c = 0x130 then [0x69, 0x307]
                             else if c = 0x212A then [0x6B]
                             else [c]),
       final_sigma = (\<lambda>s i. False),
       is_alnum = (\<lambda>c. c \<in> {0xAA, 0xB2, 0xB3, 0xB5, 0xB9, 0xBA, 0xBC, 0xBD, 0xBE, 0x130, 0x212A}
                         \<or> (0xC0 \<le> c \<and> c \<le> 0xFF \<and> c \<noteq> 0xD7 \<and> c \<noteq> 0xF7)) \<rparr>"
section \<open>Sequencing\<close>

lemma bind_Inr_iff: "bind m f = Inr y \<longleftrightarrow> (\<exists>x. m = Inr x \<and> f x = Inr y)"
  by (cases m) (auto simp: bind_def)

lemma bind_Inr [simp]: "bind (Inr x) f = f x"
  by (simp add: bind_def)

lemma bind_Inl [simp]: "bind (Inl e) f = Inl e"
  by (simp add: bind_def)

section \<open>Properties of the user slug\<close>























text \<open>The letters beyond ASCII that lowering turns into ASCII letters reach the slug: the
  Kelvin sign gives \<open>k\<close>, and U+0130 gives \<open>i\<close>.\<close>

lemma kelvin_sign_slug:
  "slugify_user latin_db [0x212A] = code_points ''k''
   \<and> slugify_user latin_db [0x130] = code_points ''i''"
  by (simp add: slugify_user_def str_lower_def str_strip_def py_strip_chars_def lower_ucs4_def
      str_isspace_def latin_db_def is_slug_char_def hyphen_def code_points_def Let_def)
section \<open>Properties of the state store\<close>




lemma mkdir_parents_dir:
  assumes "mkdir_parents p fs = Inr fs'"
  shows "is_dir fs' p"
proof (cases p)
  case Nil
  then show ?thesis by (simp add: is_dir_def)
next
  case (Cons v va)
  from assms obtain fs1 where
    r: "(case fs1 p of None \<Rightarrow> Inr (fs1(p \<mapsto> Directory)) | Some Directory \<Rightarrow> Inr fs1
          | Some (File c) \<Rightarrow> Inl FileExistsError) = Inr fs'"
    unfolding Cons mkdir_parents.simps(2) bind_Inr_iff by blast
  then have "fs' p = Some Directory"
    by (cases "fs1 p") (auto split: node.splits)
  then show ?thesis by (simp add: is_dir_def)
qed

lemma save_state_succeeds:
  "mkdir_parents STATE_DIR fs = Inr fs1 \<Longrightarrow> \<not> is_dir fs1 p \<Longrightarrow> is_dir fs1 (butlast p)
   \<Longrightarrow> save_state s p fs = Inr (p, fs1(p \<mapsto> File (JsonText (to_json s))))"
  by (simp add: save_state_def write_file_def Let_def)













lemma version_given:
  "from_json (PDict kvs) = Inr s \<Longrightarrow> map_of kvs ''version'' = Some v \<Longrightarrow> version s = v"
  by (auto simp: from_json_def Let_def bind_Inr_iff)






section \<open>Decimal numerals and ranges\<close>

lemma digit_char_is_digit: "d < 10 \<Longrightarrow> is_ascii_digit (digit_char d)"
  by (simp add: is_ascii_digit_def digit_char_def)

lemma digit_val_digit_char: "d < 10 \<Longrightarrow> digit_val (digit_char d) = d"
  by (simp add: digit_val_def digit_char_def)

lemma dec_nonempty: "dec n \<noteq> []"
  by (subst dec.simps) simp

lemma dec_digits: "c \<in> set (dec n) \<Longrightarrow> is_ascii_digit c"
proof (induction n arbitrary: c rule: dec.induct)
  case (1 n)
  show ?case
  proof (cases "n < 10")
    case True
    with "1.prems" show ?thesis
      by (subst (asm) dec.simps) (simp add: digit_char_is_digit)
  next
    case False
    from "1.prems" have "c \<in> set (dec (n div 10)) \<or> c = digit_char (n mod 10)"
      by (subst (asm) dec.simps) (auto simp: False)
    with "1.IH"[OF False] show ?thesis
      by (auto simp: digit_char_is_digit)
  qed
qed

lemma digit_not_special:
  "is_ascii_digit c \<Longrightarrow> c \<noteq> CHR ''_'' \<and> c \<noteq> CHR ''-'' \<and> c \<noteq> CHR ''+'' \<and> c \<noteq> CHR ''!''
     \<and> c \<noteq> CHR '':'' \<and> \<not> py_isspace c \<and> \<not> int_isspace c"
  by (auto simp: is_ascii_digit_def py_isspace_def int_isspace_def Let_def)

lemma digits_ok_all: "s \<noteq> [] \<Longrightarrow> \<forall>c \<in> set s. is_ascii_digit c \<Longrightarrow> digits_ok s"
proof (induction s rule: digits_ok.induct)
  case 1
  then show ?case by simp
next
  case (2 c)
  then show ?case by simp
next
  case (3 c d r)
  then show ?case using digit_not_special[of d] by simp
qed

lemma digits_value_snoc:
  "c \<noteq> CHR ''_'' \<Longrightarrow> digits_value (s @ [c]) = 10 * digits_value s + digit_val c"
  by (simp add: digits_value_def)

lemma digits_value_dec: "digits_value (dec n) = n"
proof (induction n rule: dec.induct)
  case (1 n)
  show ?case
  proof (cases "n < 10")
    case True
    moreover from True have "digit_char n \<noteq> CHR ''_''"
      using digit_not_special[OF digit_char_is_digit[of n]] by simp
    ultimately show ?thesis
      by (subst dec.simps) (simp add: digits_value_def digit_val_digit_char)
  next
    case False
    have d: "digit_char (n mod 10) \<noteq> CHR ''_''"
      using digit_not_special[OF digit_char_is_digit[of "n mod 10"]] by simp
    have "digits_value (dec n) = digits_value (dec (n div 10) @ [digit_char (n mod 10)])"
      by (subst dec.simps) (simp add: False)
    also have "\<dots> = 10 * digits_value (dec (n div 10)) + digit_val (digit_char (n mod 10))"
      using d by (rule digits_value_snoc)
    also have "\<dots> = 10 * (n div 10) + n mod 10"
      using "1.IH"[OF False] by (simp add: digit_val_digit_char)
    finally show ?thesis by simp
  qed
qed

lemma strip_chars_id:
  "s \<noteq> [] \<Longrightarrow> \<not> P (hd s) \<Longrightarrow> \<not> P (last s) \<Longrightarrow> py_strip_chars P s = s"
proof -
  assume a: "s \<noteq> []" "\<not> P (hd s)" "\<not> P (last s)"
  then have "dropWhile P s = s" by (cases s) auto
  moreover from a have "dropWhile P (rev s) = rev s"
    by (cases "rev s") (auto simp: last_rev[symmetric] hd_rev)
  ultimately show ?thesis by (simp add: py_strip_chars_def)
qed

lemma py_int_str_dec: "py_int_str (dec n) = Inr (int n)"
proof -
  have ne: "dec n \<noteq> []" by (rule dec_nonempty)
  have all: "\<forall>c \<in> set (dec n). is_ascii_digit c" using dec_digits by blast
  from ne all have h: "is_ascii_digit (hd (dec n))" and l: "is_ascii_digit (last (dec n))"
    by auto
  have "py_strip_chars int_isspace (dec n) = dec n"
    using ne h l digit_not_special by (intro strip_chars_id) auto
  moreover obtain c r where cr: "dec n = c # r" using ne by (cases "dec n") auto
  moreover have "c \<noteq> CHR ''-''" "c \<noteq> CHR ''+''"
    using h cr digit_not_special[of c] by auto
  moreover have "digits_ok (c # r)" using digits_ok_all[OF ne all] cr by simp
  moreover have "digits_value (c # r) = n" using digits_value_dec[of n] cr by simp
  ultimately show ?thesis by (simp add: py_int_str_def Let_def)
qed

lemma py_split_no_sep: "sep \<notin> set a \<Longrightarrow> py_split sep a = [a]"
  by (induction a) auto

lemma py_split_first: "sep \<notin> set a \<Longrightarrow> py_split sep (a @ sep # b) = a # py_split sep b"
  by (induction a) auto

lemma parse_updated_range_ok:
  assumes "CHR ''!'' \<notin> set title"
  shows "parse_updated_range (title @ ''!A'' @ dec n @ '':G'' @ dec n) = Inr (int n)"
proof -
  let ?rest = "''A'' @ dec n @ '':G'' @ dec n"
  have nb: "CHR ''!'' \<notin> set ?rest"
    using dec_digits digit_not_special by auto
  have "py_split CHR ''!'' (title @ CHR ''!'' # ?rest) = title # py_split CHR ''!'' ?rest"
    using assms by (rule py_split_first)
  also have "py_split CHR ''!'' ?rest = [?rest]" using nb by (rule py_split_no_sep)
  finally have s1: "py_split CHR ''!'' (title @ ''!A'' @ dec n @ '':G'' @ dec n) = [title, ?rest]"
    by simp
  have nc: "CHR '':'' \<notin> set (''A'' @ dec n)"
    using dec_digits digit_not_special by auto
  have "py_split CHR '':'' ((''A'' @ dec n) @ CHR '':'' # (''G'' @ dec n))
      = (''A'' @ dec n) # py_split CHR '':'' (''G'' @ dec n)"
    using nc by (rule py_split_first)
  then have s2: "py_split CHR '':'' ?rest = (''A'' @ dec n) # py_split CHR '':'' (''G'' @ dec n)"
    by simp
  have i1: "py_index [title, ?rest] 1 = Inr ?rest"
    by (simp add: py_index_def)
  have i2: "py_index (py_split CHR '':'' ?rest) 0 = Inr (''A'' @ dec n)"
    unfolding s2 by (simp add: py_index_def)
  have "drop 1 (''A'' @ dec n) = dec n" by simp
  then show ?thesis
    unfolding parse_updated_range_def s1 i1 bind_Inr i2 by (simp only: py_int_str_dec)
qed

lemma py_str_int_nat: "py_str_int (int n) = dec n"
  by (simp add: py_str_int_def)

section \<open>Properties of the ledger client\<close>

lemma ensure_header_nonempty: "ensure_header frepr g \<noteq> []"
  by (cases g) (auto simp: ensure_header_def row_values1_def HEADERS_def)

lemma ensure_header_tl: "tl (ensure_header frepr g) = tl g"
  by (cases g) (auto simp: ensure_header_def)

lemma ensure_header_length: "length (ensure_header frepr g) = Suc (length (tl g))"
  using ensure_header_nonempty[of frepr g] ensure_header_tl[of frepr g]
  by (cases "ensure_header frepr g") auto

lemma records_after_append:
  "get_all_records (ensure_header frepr (ensure_header frepr g @ [row]))
     = get_all_records (ensure_header frepr g) @ [to_record row]"
  using ensure_header_nonempty[of frepr g]
  by (simp add: get_all_records_def ensure_header_tl)


lemma scan_max_seq_append:
  "scan_max_seq frepr dl (xs @ ys) m = bind (scan_max_seq frepr dl xs m) (scan_max_seq frepr dl ys)"
  by (induction xs arbitrary: m) (auto split: sum.splits)



lemma py_str_int_Suc: "py_str_int (1 + int n) = dec (Suc n)"
proof -
  have "nat (1 + int n) = Suc n" by simp
  then show ?thesis by (simp add: py_str_int_def del: nat_int_add)
qed

lemma reserve_read_ok:
  assumes "st (sid, title) = Some g"
    and "scan_max_seq frepr (py_lower dmn) (get_all_records (ensure_header frepr g)) 0 = Inr k"
    and "factory (k + 1) = Inr h"
  shows "reserve_read frepr dmn sid title factory st
     = (Inr (k + 1, h), st((sid, title) \<mapsto> ensure_header frepr g))"
  using assms by (simp add: reserve_read_def open_worksheet_def Let_def)

lemma reserve_append_ok:
  assumes "st (sid, title) = Some g" and "CHR ''!'' \<notin> set title"
  shows "reserve_append now dmn assigned sid title (n, h) st
     = (Inr (n, h, title @ ''!A'' @ dec (Suc (length g)) @ '':G'' @ dec (Suc (length g))),
        st((sid, title) \<mapsto> g @ [[CStr dmn, CInt n, CStr h, CStr assigned, CStr ''Pending'',
                                   CStr now, CStr '''']]))"
  using assms parse_updated_range_ok[OF assms(2), of "Suc (length g)"]
  by (simp add: reserve_append_def append_row_def Let_def py_str_int_Suc)

lemma reserve_name_ok:
  assumes "st (sid, title) = Some g" and "CHR ''!'' \<notin> set title"
    and "scan_max_seq frepr (py_lower dmn) (get_all_records (ensure_header frepr g)) 0 = Inr k"
    and "factory (k + 1) = Inr h"
  shows "reserve_name frepr now dmn assigned sid title factory st
     = (Inr (k + 1, h, title @ ''!A'' @ dec (Suc (Suc (length (tl g)))) @ '':G''
                        @ dec (Suc (Suc (length (tl g))))),
        st((sid, title) \<mapsto> ensure_header frepr g
              @ [[CStr dmn, CInt (k + 1), CStr h, CStr assigned, CStr ''Pending'', CStr now,
                  CStr '''']]))"
proof -
  let ?st1 = "st((sid, title) \<mapsto> ensure_header frepr g)"
  have r: "reserve_read frepr dmn sid title factory st = (Inr (k + 1, h), ?st1)"
    using assms(1,3,4) by (rule reserve_read_ok)
  have "?st1 (sid, title) = Some (ensure_header frepr g)" by simp
  from reserve_append_ok[where st = ?st1 and sid = sid and title = title
      and g = "ensure_header frepr g" and now = now and dmn = dmn and assigned = assigned
      and n = "k + 1" and h = h, OF this assms(2)]
  show ?thesis
    by (simp add: reserve_name_def r ensure_header_length)
qed

lemma reserve_name_returns:
  assumes "reserve_name frepr now dmn assigned sid title factory st = (Inr (n, h, ref), st')"
  shows "\<exists>g k. st (sid, title) = Some g
     \<and> scan_max_seq frepr (py_lower dmn) (get_all_records (ensure_header frepr g)) 0 = Inr k
     \<and> n = k + 1 \<and> factory n = Inr h
     \<and> st' = st((sid, title) \<mapsto> ensure_header frepr g
              @ [[CStr dmn, CInt n, CStr h, CStr assigned, CStr ''Pending'', CStr now, CStr '''']])"
proof -
  from assms obtain g where g: "st (sid, title) = Some g"
    by (cases "st (sid, title)")
       (auto simp: reserve_name_def reserve_read_def open_worksheet_def)
  from assms g obtain k where
    k: "scan_max_seq frepr (py_lower dmn) (get_all_records (ensure_header frepr g)) 0 = Inr k"
    by (cases "scan_max_seq frepr (py_lower dmn) (get_all_records (ensure_header frepr g)) 0")
       (auto simp: reserve_name_def reserve_read_def open_worksheet_def)
  from assms g k obtain h' where h': "factory (k + 1) = Inr h'"
    by (cases "factory (k + 1)")
       (auto simp: reserve_name_def reserve_read_def open_worksheet_def Let_def)
  from assms g k h' show ?thesis
    by (auto simp: reserve_name_def reserve_read_def open_worksheet_def Let_def
        reserve_append_def append_row_def bind_Inr_iff)
qed

subsection \<open>The first reservation of a domain\<close>

lemma jane_slug: "text_of (slugify_user T (code_points ''Jane Doe'')) = ''jane-doe''"
proof -
  have "slugify_user T (code_points ''Jane Doe'') = [106, 97, 110, 101, 45, 100, 111, 101]"
    by (simp add: slugify_user_def str_lower_def str_strip_def py_strip_chars_def lower_ucs4_def
        str_isspace_def is_slug_char_def hyphen_def code_points_def Let_def upt_conv_Cons)
  moreover have "text_of [106, 97, 110, 101, 45, 100, 111, 101] = ''jane-doe''"
    by code_simp
  ultimately show ?thesis by (simp only:)
qed

lemma jane_hostname: "py_format ''{seq:03d}-{user}'' 1 ''jane-doe'' = Inr ''001-jane-doe''"
  by code_simp

lemma scan_empty_ledger:
  "tl g = [] \<Longrightarrow> scan_max_seq frepr dl (get_all_records (ensure_header frepr g)) 0 = Inr 0"
  by (simp add: get_all_records_def ensure_header_tl)

lemma dec_2: "dec (Suc (Suc 0)) = ''2''"
  by code_simp

text \<open>
  Claim C8. For a domain configured with sheet \<open>X\<close> and the template
  \<open>{seq:03d}-{user}\<close> (the worksheet is then the default \<open>Devices\<close>) and the assigned user
  \<open>Jane Doe\<close>, the reservation on a ledger without data rows returns sequence 1, hostname
  \<open>001-jane-doe\<close> and the reference \<open>Devices!A2:G2\<close>, and appends the pending row.
\<close>

theorem jane_doe_reservation:
  "domain_config_of d (PDict [(''sheet_id'', PStr ''X''),
                              (''hostname_template'', PStr ''{seq:03d}-{user}'')]) = Inr cfg
   \<and> tl g = []
   \<longrightarrow> cfg_worksheet cfg = ''Devices''
     \<and> initial_run_reserve T frepr now cfg d (code_points ''Jane Doe'') (Map.empty((''X'', ''Devices'') \<mapsto> g))
       = (Inr (1, ''001-jane-doe'', ''Devices!A2:G2''),
          Map.empty((''X'', ''Devices'') \<mapsto> ensure_header frepr g
             @ [[CStr d, CInt 1, CStr ''001-jane-doe'', CStr ''jane-doe'', CStr ''Pending'',
                 CStr now, CStr '''']]))"
proof (intro impI, elim conjE)
  assume c: "domain_config_of d (PDict [(''sheet_id'', PStr ''X''),
                              (''hostname_template'', PStr ''{seq:03d}-{user}'')]) = Inr cfg"
    and e: "tl g = []"
  from c have cfg: "cfg = \<lparr> name = d, cfg_sheet_id = ''X'', cfg_worksheet = ''Devices'',
      hostname_template = ''{seq:03d}-{user}'', ou_path = None \<rparr>"
    by (simp add: domain_config_of_def)
  let ?st = "Map.empty((''X'', ''Devices'') \<mapsto> g)"
  have 1: "?st (''X'', ''Devices'') = Some g" by simp
  have 2: "CHR ''!'' \<notin> set ''Devices''" by simp
  have 3: "scan_max_seq frepr (py_lower d) (get_all_records (ensure_header frepr g)) 0 = Inr 0"
    using e by (rule scan_empty_ledger)
  have 4: "build_hostname cfg (0 + 1) (text_of (slugify_user T (code_points ''Jane Doe''))) = Inr ''001-jane-doe''"
    by (simp add: build_hostname_def cfg jane_slug jane_hostname)
  from reserve_name_ok[where st = ?st and sid = "''X''" and title = "''Devices''" and g = g
      and frepr = frepr and dmn = d and k = 0
      and factory = "\<lambda>n. build_hostname cfg n (text_of (slugify_user T (code_points ''Jane Doe'')))"
      and h = "''001-jane-doe''" and now = now and assigned = "text_of (slugify_user T (code_points ''Jane Doe''))",
      OF 1 2 3 4]
  show "cfg_worksheet cfg = ''Devices''
     \<and> initial_run_reserve T frepr now cfg d (code_points ''Jane Doe'') ?st
       = (Inr (1, ''001-jane-doe'', ''Devices!A2:G2''),
          Map.empty((''X'', ''Devices'') \<mapsto> ensure_header frepr g
             @ [[CStr d, CInt 1, CStr ''001-jane-doe'', CStr ''jane-doe'', CStr ''Pending'',
                 CStr now, CStr '''']]))"
    by (simp add: initial_run_reserve_def Let_def cfg e dec_2 jane_slug)
qed

theorem jane_doe_reservation_witness:
  "\<exists>cfg. domain_config_of ''corp'' (PDict [(''sheet_id'', PStr ''X''),
                              (''hostname_template'', PStr ''{seq:03d}-{user}'')]) = Inr cfg
     \<and> fst (initial_run_reserve latin_db no_float_text ''2024-01-01T00:00:00+00:00'' cfg ''corp''
              (code_points ''Jane Doe'')
              (Map.empty((''X'', ''Devices'') \<mapsto> [])))
         = Inr (1, ''001-jane-doe'', ''Devices!A2:G2'')"
proof -
  have "domain_config_of ''corp'' (PDict [(''sheet_id'', PStr ''X''),
            (''hostname_template'', PStr ''{seq:03d}-{user}'')])
      = Inr \<lparr> name = ''corp'', cfg_sheet_id = ''X'', cfg_worksheet = ''Devices'',
      hostname_template = ''{seq:03d}-{user}'', ou_path = None \<rparr>"
    by (simp add: domain_config_of_def)
  moreover have "tl ([] :: grid) = []" by simp
  ultimately show ?thesis
    using jane_doe_reservation[where d = "''corp''" and g = "[]" and T = latin_db] by fastforce
qed

lemma appended_row_reference:
  "row_number_of ''Devices!A2:G2'' = Inr 2"
  by code_simp

subsection \<open>Rows with a malformed sequence\<close>


text \<open>An infinite float in the column is not passed over either: \<open>int\<close> raises
  \<open>OverflowError\<close>, which the loop does not catch.\<close>

lemma infinity_is_fatal:
  "fst (reserve_name frepr now ''corp'' ''bob'' ''X'' ''Devices'' plain_factory (one_sheet ledger_with_infinity))
     = Inl OverflowError"
  by code_simp



subsection \<open>Reservations in sequence\<close>

lemma ensure_header_idem: "ensure_header frepr (ensure_header frepr g) = ensure_header frepr g"
proof (cases g)
  case Nil
  then show ?thesis by (simp add: ensure_header_def row_values1_def HEADERS_def)
next
  case (Cons r rs)
  show ?thesis
  proof (cases "row_values1 frepr g = HEADERS")
    case True
    then show ?thesis by (simp add: ensure_header_def)
  next
    case False
    let ?h = "map CStr HEADERS @ drop 7 r"
    have e: "ensure_header frepr g = ?h # rs" using False Cons by (simp add: ensure_header_def)
    have l: "length HEADERS = 7" by (simp add: HEADERS_def)
    show ?thesis unfolding e
      by (cases "row_values1 frepr (?h # rs) = HEADERS") (simp_all add: ensure_header_def l)
  qed
qed

lemma ensure_header_append:
  "x \<noteq> [] \<Longrightarrow> ensure_header frepr (x @ ys) = ensure_header frepr x @ ys"
  by (cases x) (simp_all add: ensure_header_def row_values1_def)

lemma pending_record:
  "row_get (to_record [CStr dmn, CInt n, CStr h, CStr a, CStr ''Pending'', CStr now, CStr ''''])
      ''Domain'' (CStr '''') = CStr dmn"
  "row_get (to_record [CStr dmn, CInt n, CStr h, CStr a, CStr ''Pending'', CStr now, CStr ''''])
      ''Sequence'' (CInt 0) = CInt n"
  "row_get (to_record [CStr dmn, CInt n, CStr h, CStr a, CStr ''Pending'', CStr now, CStr ''''])
      ''Status'' (CStr '''') = CStr ''Pending''"
  by (simp_all add: to_record_def HEADERS_def row_get_def)

lemma scan_after_reserve:
  assumes "py_lower (py_strip dmn) = py_lower dmn"
    and "scan_max_seq frepr (py_lower dmn) (get_all_records (ensure_header frepr g)) 0 = Inr k"
    and "0 \<le> k"
  shows "scan_max_seq frepr (py_lower dmn)
       (get_all_records (ensure_header frepr (ensure_header frepr g
          @ [[CStr dmn, CInt (k + 1), CStr h, CStr a, CStr ''Pending'', CStr now, CStr '''']]))) 0
     = Inr (k + 1)"
  using assms
  by (simp add: records_after_append scan_max_seq_append pending_record)

lemma scan_nonneg:
  "scan_max_seq frepr dl recs m = Inr k \<Longrightarrow> 0 \<le> m \<Longrightarrow> 0 \<le> k"
  by (induction recs arbitrary: m) (auto split: if_splits sum.splits)

lemma reserve_sequence_numbers_from:
  assumes clean: "py_lower (py_strip dmn) = py_lower dmn"
  shows "reserve_sequence frepr calls dmn sid title st = (Inr rs, st') \<Longrightarrow>
     st (sid, title) = Some g \<Longrightarrow>
     scan_max_seq frepr (py_lower dmn) (get_all_records (ensure_header frepr g)) 0 = Inr k \<Longrightarrow>
     map fst rs = map (\<lambda>i. k + 1 + int i) [0..<length calls]
     \<and> (\<exists>g'. st' (sid, title) = Some g' \<and> tl g' = tl g @ map2 (pending_row dmn) calls rs)"
proof (induction calls arbitrary: st g k rs)
  case Nil
  then show ?case by simp
next
  case (Cons c calls)
  obtain now assigned factory where c: "c = (now, assigned, factory)" by (cases c) auto
  from Cons.prems(1) obtain r st1 rs' where
    r: "reserve_name frepr now dmn assigned sid title factory st = (Inr r, st1)" and
    rest: "reserve_sequence frepr calls dmn sid title st1 = (Inr rs', st')" and
    rs: "rs = r # rs'"
    unfolding c by (auto split: prod.splits sum.splits)
  obtain n h ref where rr: "r = (n, h, ref)" by (cases r) auto
  let ?row = "[CStr dmn, CInt n, CStr h, CStr assigned, CStr ''Pending'', CStr now, CStr '''']"
  from reserve_name_returns[OF r[unfolded rr]] Cons.prems(2,3)
  have n: "n = k + 1" and st1: "st1 = st((sid, title) \<mapsto> ensure_header frepr g @ [?row])"
    by auto
  have k0: "0 \<le> k" using Cons.prems(3) by (rule scan_nonneg) simp
  let ?g1 = "ensure_header frepr g @ [?row]"
  have g1: "st1 (sid, title) = Some ?g1" by (simp add: st1)
  have s1: "scan_max_seq frepr (py_lower dmn) (get_all_records (ensure_header frepr ?g1)) 0
      = Inr (k + 1)"
    unfolding n using clean Cons.prems(3) k0 by (rule scan_after_reserve)
  from Cons.IH[OF rest g1 s1] obtain g' where
    m: "map fst rs' = map (\<lambda>i. k + 1 + 1 + int i) [0..<length calls]" and
    g': "st' (sid, title) = Some g'" "tl g' = tl ?g1 @ map2 (pending_row dmn) calls rs'"
    by blast
  have "map fst rs = (k + 1) # map (\<lambda>i. k + 1 + 1 + int i) [0..<length calls]"
    using m rs rr n by simp
  also have "\<dots> = map (\<lambda>i. k + 1 + int i) [0..<length (c # calls)]"
    by (simp only: length_Cons map_upt_Suc) (simp add: add.assoc)
  finally have a: "map fst rs = map (\<lambda>i. k + 1 + int i) [0..<length (c # calls)]" .
  have "tl ?g1 = tl g @ [?row]"
    using ensure_header_nonempty[of frepr g] by (simp add: ensure_header_tl)
  then have "tl g' = tl g @ map2 (pending_row dmn) (c # calls) rs"
    using g'(2) by (simp add: rs rr c pending_row_def)
  with a g'(1) show ?case by blast
qed

lemma strip_clean_lower: "py_strip dmn = dmn \<Longrightarrow> py_lower (py_strip dmn) = py_lower dmn"
  by simp

lemma upt_as_ints: "map (\<lambda>i. 0 + 1 + int i) [0..<n] = map int [1..<Suc n]"
proof -
  have "map int [1..<Suc n] = map int (map Suc [0..<n])"
    by (simp only: map_Suc_upt One_nat_def)
  then show ?thesis by (simp add: comp_def)
qed

text \<open>
  Sequence monotonicity, for a domain name that \<open>strip\<close> leaves as it is: calls made one
  after the other on a ledger without data rows return, when they return, the numbers 1
  to N, and the data rows of the ledger are then the pending rows of the calls, in order.
\<close>

theorem reserve_sequence_numbers:
  assumes "py_strip dmn = dmn"
    and "st (sid, title) = Some g" and "tl g = []"
    and "reserve_sequence frepr calls dmn sid title st = (Inr rs, st')"
  shows "map fst rs = map int [1..<Suc (length calls)]
     \<and> (\<exists>g'. st' (sid, title) = Some g' \<and> tl g' = map2 (pending_row dmn) calls rs)"
proof -
  have s: "scan_max_seq frepr (py_lower dmn) (get_all_records (ensure_header frepr g)) 0 = Inr 0"
    using assms(3) by (rule scan_empty_ledger)
  from reserve_sequence_numbers_from[OF strip_clean_lower[OF assms(1)] assms(4,2) s]
  show ?thesis using assms(3) by (simp only: upt_as_ints append_Nil)
qed

text \<open>The calls do return when the worksheet exists, its title has no exclamation mark and
  the hostname factories answer.\<close>

lemma reserve_sequence_total:
  assumes "CHR ''!'' \<notin> set title"
    and "\<forall>c \<in> set calls. \<forall>n. \<exists>h. snd (snd c) n = Inr h"
  shows "st (sid, title) = Some g \<Longrightarrow>
     scan_max_seq frepr (py_lower dmn) (get_all_records (ensure_header frepr g)) 0 = Inr k \<Longrightarrow>
     \<exists>rs st'. reserve_sequence frepr calls dmn sid title st = (Inr rs, st')"
  using assms(2)
proof (induction calls arbitrary: st g k)
  case Nil
  then show ?case by simp
next
  case (Cons c calls)
  obtain now assigned factory where c: "c = (now, assigned, factory)" by (cases c) auto
  from Cons.prems(3) c obtain h where h: "factory (k + 1) = Inr h" by fastforce
  let ?row = "[CStr dmn, CInt (k + 1), CStr h, CStr assigned, CStr ''Pending'', CStr now, CStr '''']"
  let ?g1 = "ensure_header frepr g @ [?row]"
  let ?st1 = "st((sid, title) \<mapsto> ?g1)"
  from reserve_name_ok[where st = st and sid = sid and title = title and g = g and frepr = frepr
      and dmn = dmn and k = k and factory = factory and h = h and now = now and assigned = assigned,
      OF Cons.prems(1) assms(1) Cons.prems(2) h]
  obtain ref where r: "reserve_name frepr now dmn assigned sid title factory st
      = (Inr (k + 1, h, ref), ?st1)" by blast
  have g1: "?st1 (sid, title) = Some ?g1" by simp
  obtain k' where s1: "scan_max_seq frepr (py_lower dmn) (get_all_records (ensure_header frepr ?g1)) 0
      = Inr k'"
    using Cons.prems(2)
    by (cases "py_lower (py_strip dmn) = py_lower dmn")
       (auto simp: records_after_append scan_max_seq_append pending_record)
  from Cons.prems(3) have "\<forall>c \<in> set calls. \<forall>n. \<exists>h. snd (snd c) n = Inr h" by simp
  from Cons.IH[where st = ?st1 and g = ?g1 and k = k', OF g1 s1 this] obtain rs st' where
    "reserve_sequence frepr calls dmn sid title ?st1 = (Inr rs, st')" by blast
  with r show ?case unfolding c by simp
qed

theorem reserve_sequence_numbers_witness:
  "\<exists>r1 r2 r3 st'.
     reserve_sequence no_float_text
       [(''t1'', ''ann'', plain_factory), (''t2'', ''bob'', plain_factory), (''t3'', ''eve'', plain_factory)]
       ''corp'' ''X'' ''Devices'' (one_sheet []) = (Inr [(1, r1), (2, r2), (3, r3)], st')"
proof -
  let ?calls = "[(''t1'', ''ann'', plain_factory), (''t2'', ''bob'', plain_factory),
      (''t3'', ''eve'', plain_factory)]"
  have 1: "py_strip ''corp'' = ''corp''" by code_simp
  have 2: "one_sheet [] (''X'', ''Devices'') = Some []" by (simp add: one_sheet_def)
  have 3: "tl ([] :: grid) = []" by simp
  have "\<forall>c \<in> set ?calls. \<forall>n. \<exists>h. snd (snd c) n = Inr h"
    by (simp add: plain_factory_def)
  with reserve_sequence_total[where title = "''Devices''" and calls = ?calls and st = "one_sheet []"
      and sid = "''X''" and g = "[]" and frepr = no_float_text and dmn = "''corp''" and k = 0]
    scan_empty_ledger[OF 3] 2
  obtain rs st' where r: "reserve_sequence no_float_text ?calls ''corp'' ''X'' ''Devices'' (one_sheet [])
      = (Inr rs, st')"
    by auto
  from reserve_sequence_numbers[OF 1 2 3 r] have m: "map fst rs = map int [1..<Suc (length ?calls)]"
    by blast
  have "map int [1..<Suc (length ?calls)] = [1, 2, 3]" by code_simp
  with m have "map fst rs = [1, 2, 3]" by simp
  then obtain r1 r2 r3 where "rs = [(1, r1), (2, r2), (3, r3)]"
    by (auto simp: map_eq_Cons_conv)
  with r show ?thesis by blast
qed

text \<open>
  Claim C2 reads: N calls for the same domain on an empty ledger return 1 to N. The loop
  compares the stripped domain of a row with the unstripped argument, so for the domain
  \<open>" corp"\<close> no row ever matches, its own included: two calls in sequence both return 1.
\<close>

theorem padded_domain_repeats:
  "fst (reserve_sequence no_float_text [(''t1'', ''ann'', plain_factory), (''t2'', ''bob'', plain_factory)]
          '' corp'' ''X'' ''Devices'' (one_sheet []))
     = Inr [(1, ''pc-1'', ''Devices!A2:G2''), (1, ''pc-1'', ''Devices!A3:G3'')]"
  by code_simp

subsection \<open>Reservations interleaved\<close>

text \<open>A client that takes its two steps with no other in between makes the call
  \<open>reserve_name\<close>.\<close>

lemma reserve_name_as_steps:
  "reserve_name frepr now dmn assigned sid title factory st = (Inr r, st') \<longleftrightarrow>
     (\<exists>nh st1. client_step frepr dmn sid title (now, assigned, factory) Calling st = Some (Holding nh, st1)
        \<and> client_step frepr dmn sid title (now, assigned, factory) (Holding nh) st1
             = Some (Returned r, st'))"
proof -
  obtain x st1 where rd: "reserve_read frepr dmn sid title factory st = (x, st1)"
    by (cases "reserve_read frepr dmn sid title factory st") auto
  show ?thesis
  proof (cases x)
    case (Inl e)
    with rd show ?thesis by (simp add: reserve_name_def)
  next
    case (Inr nh)
    obtain y st2 where ap: "reserve_append now dmn assigned sid title nh st1 = (y, st2)"
      by (cases "reserve_append now dmn assigned sid title nh st1") auto
    show ?thesis
      using rd Inr ap by (cases y) (auto simp: reserve_name_def)
  qed
qed

text \<open>
  Claim C4. Two clients of the same domain and ledger, the second reading before the
  first has appended, both return the same sequence number, and the ledger ends with two
  rows of that number: the reads and appends interleave as read, read, append, append.
\<close>

theorem interleaved_duplicate:
  assumes "st (sid, title) = Some g" and "CHR ''!'' \<notin> set title"
    and "scan_max_seq frepr (py_lower dmn) (get_all_records (ensure_header frepr g)) 0 = Inr k"
    and "fa (k + 1) = Inr ha" and "fb (k + 1) = Inr hb"
  shows "\<exists>ra rb.
     interleaved frepr dmn sid title (ta, ua, fa) (tb, ub, fb)
       (Calling, Calling, st)
       (Returned (k + 1, ha, ra), Returned (k + 1, hb, rb),
        st((sid, title) \<mapsto> ensure_header frepr g
           @ [[CStr dmn, CInt (k + 1), CStr ha, CStr ua, CStr ''Pending'', CStr ta, CStr ''''],
              [CStr dmn, CInt (k + 1), CStr hb, CStr ub, CStr ''Pending'', CStr tb, CStr '''']]))"
proof -
  let ?g1 = "ensure_header frepr g"
  let ?st1 = "st((sid, title) \<mapsto> ?g1)"
  let ?rowa = "[CStr dmn, CInt (k + 1), CStr ha, CStr ua, CStr ''Pending'', CStr ta, CStr '''']"
  let ?rowb = "[CStr dmn, CInt (k + 1), CStr hb, CStr ub, CStr ''Pending'', CStr tb, CStr '''']"
  let ?st3 = "?st1((sid, title) \<mapsto> ?g1 @ [?rowa])"
  let ?st4 = "?st3((sid, title) \<mapsto> (?g1 @ [?rowa]) @ [?rowb])"
  let ?I = "interleaved frepr dmn sid title (ta, ua, fa) (tb, ub, fb) (Calling, Calling, st)"
  have read_a: "reserve_read frepr dmn sid title fa st = (Inr (k + 1, ha), ?st1)"
    using assms(1,3,4) by (rule reserve_read_ok)
  have g1: "?st1 (sid, title) = Some ?g1" by simp
  have s1: "scan_max_seq frepr (py_lower dmn) (get_all_records (ensure_header frepr ?g1)) 0 = Inr k"
    using assms(3) by (simp add: ensure_header_idem)
  have read_b: "reserve_read frepr dmn sid title fb ?st1 = (Inr (k + 1, hb), ?st1)"
    using reserve_read_ok[where st = ?st1 and sid = sid and title = title and g = ?g1
        and frepr = frepr and dmn = dmn and k = k and factory = fb and h = hb, OF g1 s1 assms(5)]
    by (simp add: ensure_header_idem)
  obtain ra where app_a: "reserve_append ta dmn ua sid title (k + 1, ha) ?st1
      = (Inr (k + 1, ha, ra), ?st3)"
    using reserve_append_ok[where st = ?st1 and sid = sid and title = title and g = ?g1
        and now = ta and dmn = dmn and assigned = ua and n = "k + 1" and h = ha, OF g1 assms(2)]
    by blast
  have g3: "?st3 (sid, title) = Some (?g1 @ [?rowa])" by simp
  obtain rb where app_b: "reserve_append tb dmn ub sid title (k + 1, hb) ?st3
      = (Inr (k + 1, hb, rb), ?st4)"
    using reserve_append_ok[where st = ?st3 and sid = sid and title = title and g = "?g1 @ [?rowa]"
        and now = tb and dmn = dmn and assigned = ub and n = "k + 1" and h = hb, OF g3 assms(2)]
    by blast
  have "?I (Calling, Calling, st)" by (rule interleaved.refl)
  then have "?I (Holding (k + 1, ha), Calling, ?st1)"
    by (rule interleaved.left) (use read_a in simp)
  then have "?I (Holding (k + 1, ha), Holding (k + 1, hb), ?st1)"
    by (rule interleaved.right) (use read_b in simp)
  then have "?I (Returned (k + 1, ha, ra), Holding (k + 1, hb), ?st3)"
    by (rule interleaved.left) (use app_a in simp)
  then have "?I (Returned (k + 1, ha, ra), Returned (k + 1, hb, rb), ?st4)"
    by (rule interleaved.right) (use app_b in simp)
  moreover have "?st4 = st((sid, title) \<mapsto> ?g1 @ [?rowa, ?rowb])" by simp
  ultimately show ?thesis by (simp only:) blast
qed

theorem interleaved_duplicate_witness:
  "\<exists>ra rb st'.
     interleaved no_float_text ''corp'' ''X'' ''Devices'' (''t1'', ''ann'', plain_factory)
       (''t2'', ''bob'', plain_factory)
       (Calling, Calling, one_sheet [])
       (Returned (1, ''pc-1'', ra), Returned (1, ''pc-1'', rb), st')
     \<and> st' (''X'', ''Devices'')
         = Some [header_row,
             [CStr ''corp'', CInt 1, CStr ''pc-1'', CStr ''ann'', CStr ''Pending'', CStr ''t1'', CStr ''''],
             [CStr ''corp'', CInt 1, CStr ''pc-1'', CStr ''bob'', CStr ''Pending'', CStr ''t2'', CStr '''']]"
proof -
  have 1: "one_sheet [] (''X'', ''Devices'') = Some []" by (simp add: one_sheet_def)
  have 2: "CHR ''!'' \<notin> set ''Devices''" by simp
  have 3: "scan_max_seq no_float_text (py_lower ''corp'')
      (get_all_records (ensure_header no_float_text [])) 0 = Inr 0"
    by (rule scan_empty_ledger) simp
  have 4: "plain_factory (0 + 1) = Inr ''pc-1''" by code_simp
  have h: "ensure_header no_float_text [] = [header_row]"
    by (simp add: ensure_header_def row_values1_def header_row_def HEADERS_def)
  from interleaved_duplicate[where st = "one_sheet []" and sid = "''X''" and title = "''Devices''"
      and g = "[]" and frepr = no_float_text and dmn = "''corp''" and k = 0
      and fa = plain_factory and fb = plain_factory and ha = "''pc-1''" and hb = "''pc-1''"
      and ta = "''t1''" and ua = "''ann''" and tb = "''t2''" and ub = "''bob''", OF 1 2 3 4 4]
  obtain ra rb where
    "interleaved no_float_text ''corp'' ''X'' ''Devices'' (''t1'', ''ann'', plain_factory)
       (''t2'', ''bob'', plain_factory) (Calling, Calling, one_sheet [])
       (Returned (1, ''pc-1'', ra), Returned (1, ''pc-1'', rb),
        (one_sheet [])((''X'', ''Devices'') \<mapsto> [header_row,
             [CStr ''corp'', CInt 1, CStr ''pc-1'', CStr ''ann'', CStr ''Pending'', CStr ''t1'', CStr ''''],
             [CStr ''corp'', CInt 1, CStr ''pc-1'', CStr ''bob'', CStr ''Pending'', CStr ''t2'', CStr '''']]))"
    unfolding h by auto
  then show ?thesis by (intro exI conjI) (assumption, simp)
qed

section \<open>Properties of the secret protector\<close>

lemma b64_value_char: "v < 64 \<Longrightarrow> b64_value (b64_char v) = Some v"
proof -
  assume v: "v < 64"
  consider "v < 26" | "26 \<le> v \<and> v < 52" | "52 \<le> v \<and> v < 62" | "v = 62" | "v = 63"
    using v by linarith
  then show ?thesis
  proof cases
    case 1
    then have "(of_char (b64_char v) :: nat) = 65 + v" by (simp add: b64_char_def)
    with 1 show ?thesis by (simp add: b64_value_def)
  next
    case 2
    then have "(of_char (b64_char v) :: nat) = 97 + (v - 26)" by (simp add: b64_char_def)
    with 2 show ?thesis by (simp add: b64_value_def)
  next
    case 3
    then have "(v - 4) mod 256 = v - 4" by auto
    with 3 have "(of_char (b64_char v) :: nat) = 48 + (v - 52)" by (simp add: b64_char_def)
    with 3 show ?thesis by (auto simp: b64_value_def Let_def)
  next
    case 4
    then show ?thesis by (simp add: b64_char_def b64_value_def)
  next
    case 5
    then show ?thesis by (simp add: b64_char_def b64_value_def)
  qed
qed

lemma b64_char_ascii: "v < 64 \<Longrightarrow> (of_char (b64_char v) :: nat) < 128 \<and> b64_char v \<noteq> CHR ''=''"
proof -
  assume v: "v < 64"
  have "b64_value CHR ''='' = None" by (simp add: b64_value_def)
  with b64_value_char[OF v] have ne: "b64_char v \<noteq> CHR ''=''" by auto
  have "(of_char (b64_char v) :: nat) < 128"
    using v by (auto simp: b64_char_def)
  with ne show ?thesis by simp
qed

lemma scan_data_char:
  "v < 64 \<Longrightarrow> b64_scan (b64_char v # cs) q l p out =
     (if q = 0 then b64_scan cs 1 v 0 out
      else if q = 1 then b64_scan cs 2 (v mod 16) 0 (of_nat (l * 4 + v div 16) # out)
      else if q = 2 then b64_scan cs 3 (v mod 4) 0 (of_nat (l * 16 + v div 4) # out)
      else b64_scan cs 0 0 0 (of_nat (l * 64 + v) # out))"
  using b64_char_ascii[of v] by (simp add: b64_value_char)

lemma byte_parts:
  fixes a b c :: byte
  shows "unat a div 4 < 64" "unat a mod 4 * 16 < 64" "unat a mod 4 * 16 + unat b div 16 < 64"
    "unat a mod 16 * 4 < 64" "unat a mod 16 * 4 + unat c div 64 < 64" "unat a mod 64 < 64"
proof -
  have a: "unat a < 256" using unsigned_less[of a] by simp
  have b: "unat b < 256" using unsigned_less[of b] by simp
  have c: "unat c < 256" using unsigned_less[of c] by simp
  show "unat a div 4 < 64" using a by simp
  show "unat a mod 4 * 16 < 64" by (simp add: less_mult_imp_div_less)
  show "unat a mod 4 * 16 + unat b div 16 < 64" using b by simp
  show "unat a mod 16 * 4 < 64" by simp
  show "unat a mod 16 * 4 + unat c div 64 < 64" using c by simp
  show "unat a mod 64 < 64" by simp
qed


lemma b64_group:
  fixes a b c :: byte
  shows "of_nat (unat a div 4 * 4 + (unat a mod 4 * 16 + unat b div 16) div 16) = a"
    "of_nat ((unat a mod 4 * 16 + unat b div 16) mod 16 * 16 + (unat b mod 16 * 4 + unat c div 64) div 4) = b"
    "of_nat ((unat b mod 16 * 4 + unat c div 64) mod 4 * 64 + unat c mod 64) = c"
    "of_nat (unat a div 4 * 4 + (unat a mod 4 * 16) div 16) = a"
    "of_nat ((unat a mod 4 * 16 + unat b div 16) mod 16 * 16 + (unat b mod 16 * 4) div 4) = b"
proof -
  have b: "unat b < 256" using unsigned_less[of b] by simp
  have c: "unat c < 256" using unsigned_less[of c] by simp
  have b16: "unat b div 16 < 16" using b by simp
  have c64: "unat c div 64 < 4" using c by simp
  have 1: "unat a div 4 * 4 + (unat a mod 4 * 16 + unat b div 16) div 16 = unat a"
    using b16 by simp
  have 2: "(unat a mod 4 * 16 + unat b div 16) mod 16 * 16 + (unat b mod 16 * 4 + unat c div 64) div 4
      = unat b"
    using b16 c64 by simp
  have 3: "(unat b mod 16 * 4 + unat c div 64) mod 4 * 64 + unat c mod 64 = unat c"
    using c64 by simp
  have 4: "unat a div 4 * 4 + (unat a mod 4 * 16) div 16 = unat a" by simp
  have 5: "(unat a mod 4 * 16 + unat b div 16) mod 16 * 16 + (unat b mod 16 * 4) div 4 = unat b"
    using b16 by simp
  show "of_nat (unat a div 4 * 4 + (unat a mod 4 * 16 + unat b div 16) div 16) = a"
    by (simp only: 1) simp
  show "of_nat ((unat a mod 4 * 16 + unat b div 16) mod 16 * 16 + (unat b mod 16 * 4 + unat c div 64) div 4) = b"
    by (simp only: 2) simp
  show "of_nat ((unat b mod 16 * 4 + unat c div 64) mod 4 * 64 + unat c mod 64) = c"
    by (simp only: 3) simp
  show "of_nat (unat a div 4 * 4 + (unat a mod 4 * 16) div 16) = a"
    by (simp only: 4) simp
  show "of_nat ((unat a mod 4 * 16 + unat b div 16) mod 16 * 16 + (unat b mod 16 * 4) div 4) = b"
    by (simp only: 5) simp
qed


lemma scan_pad_two: "b64_scan (CHR ''='' # CHR ''='' # cs) 2 l 0 out = Inr (rev out)"
  by simp

lemma scan_pad_one: "b64_scan (CHR ''='' # cs) 3 l 0 out = Inr (rev out)"
  by simp

lemma b64_scan_encode: "b64_scan (b64encode bs) 0 l 0 out = Inr (rev out @ bs)"
proof (induction bs arbitrary: l out rule: b64encode.induct)
  case 1
  then show ?case by simp
next
  case (2 a)
  show ?case
    by (simp only: b64encode.simps scan_data_char[OF byte_parts(1)]
        scan_data_char[OF byte_parts(2)] scan_pad_two b64_group(4))
       simp
next
  case (3 a b)
  show ?case
    by (simp only: b64encode.simps scan_data_char[OF byte_parts(1)]
        scan_data_char[OF byte_parts(3)] scan_data_char[OF byte_parts(4)]
        scan_pad_one b64_group(1) b64_group(5))
       simp
next
  case (4 a b c rest)
  have "b64_scan (b64encode (a # b # c # rest)) 0 l 0 out
      = b64_scan (b64encode rest) 0 0 0 (c # b # a # out)"
    by (simp only: b64encode.simps append_Cons append_Nil scan_data_char[OF byte_parts(1)]
        scan_data_char[OF byte_parts(3)] scan_data_char[OF byte_parts(5)]
        scan_data_char[OF byte_parts(6)] b64_group(1,2,3))
       simp
  then show ?case by (simp add: "4.IH")
qed

lemma b64encode_ascii: "list_all (\<lambda>c. (of_char c :: nat) < 128) (b64encode bs)"
  by (induction bs rule: b64encode.induct)
     (simp_all add: b64_char_ascii byte_parts)

lemma b64decode_encode: "b64decode (b64encode bs) = Inr bs"
  by (simp add: b64decode_def b64encode_ascii b64_scan_encode)

lemma le_bytes_unit:
  "u < 65536 \<Longrightarrow> le_bytes u = [a, b] \<Longrightarrow> unat a + 256 * unat b = u"
proof -
  assume u: "u < 65536" and e: "le_bytes u = [a, b]"
  from e have a: "a = of_nat (u mod 256)" and b: "b = of_nat (u div 256)"
    by (simp_all add: le_bytes_def)
  have "unat a = u mod 256" unfolding a by (simp add: unat_of_nat)
  moreover have "u div 256 < 256" using u by simp
  then have "unat b = u div 256" unfolding b by (simp add: unat_of_nat)
  ultimately show ?thesis by simp
qed

lemma decode_plain:
  assumes "c < 0xD800 \<or> (0xE000 \<le> c \<and> c < 0x10000)"
  shows "utf16le_decode (encode_code_point c @ rest)
     = bind (utf16le_decode rest) (\<lambda>r. Inr (c # r))"
proof -
  from assms have lt: "c < 65536" by auto
  obtain a b where ab: "le_bytes c = [a, b]" by (simp add: le_bytes_def)
  have u: "unat a + 256 * unat b = c" using lt ab by (rule le_bytes_unit)
  have "encode_code_point c = [a, b]" using lt ab by (simp add: encode_code_point_def)
  then show ?thesis using assms u by (auto simp: Let_def)
qed

lemma decode_pair:
  assumes "0x10000 \<le> c" and "c \<le> 0x10FFFF"
  shows "utf16le_decode (encode_code_point c @ rest)
     = bind (utf16le_decode rest) (\<lambda>r. Inr (c # r))"
proof -
  define v where "v = c - 0x10000"
  have v: "v < 0x100000" using assms by (simp add: v_def)
  let ?hi = "0xD800 + v div 1024"
  let ?lo = "0xDC00 + v mod 1024"
  have hi: "0xD800 \<le> ?hi" "?hi < 0xDC00" using v by auto
  have lo: "0xDC00 \<le> ?lo" "?lo < 0xE000" by auto
  obtain a b where ab: "le_bytes ?hi = [a, b]" by (simp add: le_bytes_def)
  obtain d e where de: "le_bytes ?lo = [d, e]" by (simp add: le_bytes_def)
  have ua: "unat a + 256 * unat b = ?hi" using ab hi by (intro le_bytes_unit) auto
  have ud: "unat d + 256 * unat e = ?lo" using de lo by (intro le_bytes_unit) auto
  have enc: "encode_code_point c = [a, b, d, e]"
    using assms ab de by (simp add: encode_code_point_def Let_def v_def)
  have cp: "0x10000 + (?hi - 0xD800) * 1024 + (?lo - 0xDC00) = c"
    using assms by (simp add: v_def)
  have "utf16le_decode ([a, b, d, e] @ rest)
      = bind (utf16le_decode rest)
          (\<lambda>r. Inr ((0x10000 + (?hi - 0xD800) * 1024 + (?lo - 0xDC00)) # r))"
    using hi lo by (simp add: Let_def ua ud del: add_diff_cancel_left')
  then show ?thesis unfolding enc cp .
qed

lemma utf16le_roundtrip: "utf16le_encode s = Inr bs \<Longrightarrow> utf16le_decode bs = Inr s"
proof (induction s arbitrary: bs)
  case Nil
  then show ?case by simp
next
  case (Cons c cs)
  from Cons.prems have ok: "\<not> ((0xD800 \<le> c \<and> c < 0xE000) \<or> 0x10FFFF < c)"
    by (auto split: if_splits)
  with Cons.prems obtain rest where rest: "utf16le_encode cs = Inr rest"
    and bs: "bs = encode_code_point c @ rest"
    by (auto simp: bind_Inr_iff)
  from Cons.IH[OF rest] have d: "utf16le_decode rest = Inr cs" .
  show ?case
  proof (cases "c < 0x10000")
    case True
    with ok have "c < 0xD800 \<or> (0xE000 \<le> c \<and> c < 0x10000)" by auto
    from decode_plain[OF this, of rest] show ?thesis unfolding bs d by simp
  next
    case False
    with ok have "0x10000 \<le> c" "c \<le> 0x10FFFF" by auto
    from decode_pair[OF this, of rest] show ?thesis unfolding bs d by simp
  qed
qed

lemma utf16le_encode_error: "utf16le_encode s = Inl e \<Longrightarrow> e = UnicodeEncodeError"
  by (induction s arbitrary: e) (auto simp: bind_def split: if_splits sum.splits)

text \<open>
  Claim C1 reads: unprotecting the token that protecting \<open>s\<close> produced returns \<open>s\<close>. The
  two codecs around the platform calls do invert each other (\<open>utf16le_roundtrip\<close>,
  \<open>b64decode_encode\<close>), but the comparison \<open>result != BOOL(True)\<close> that follows each
  platform call is true whatever the call returned: \<open>protect_string\<close> raises on every
  string (\<open>UnicodeEncodeError\<close> for a surrogate, \<open>OSError\<close> otherwise) and produces no
  token, and \<open>unprotect_string\<close> raises on every argument.
\<close>

theorem protect_string_always_raises:
  "(protect_string D s = Inl OSError \<or> protect_string D s = Inl UnicodeEncodeError)
   \<and> isl (unprotect_string D p)
   \<and> protect_string xor_dpapi [112, 119] = Inl OSError"
proof -
  have a: "protect_string D s = Inl OSError \<or> protect_string D s = Inl UnicodeEncodeError"
  proof (cases "utf16le_encode s")
    case (Inl e)
    then have "e = UnicodeEncodeError" by (rule utf16le_encode_error)
    with Inl show ?thesis by (simp add: protect_string_def)
  next
    case (Inr data)
    then show ?thesis by (simp add: protect_string_def Let_def)
  qed
  have b: "isl (unprotect_string D p)"
  proof (cases p)
    case (PStr t)
    then show ?thesis
      by (cases "b64decode t") (simp_all add: unprotect_string_def Let_def)
  qed (simp_all add: unprotect_string_def)
  have "utf16le_encode [112, 119] = Inr (le_bytes 112 @ le_bytes 119)"
    by (simp add: encode_code_point_def)
  then have c: "protect_string xor_dpapi [112, 119] = Inl OSError"
    by (simp add: protect_string_def Let_def)
  from a b c show ?thesis by blast
qed

section \<open>Properties of phase 2\<close>

text \<open>The second part of the phase does what claim C9 says: among the calls it makes on the
  machine, \<open>remove_local_user\<close> stands only for the build user and only when the lowered
  names differ, and then right after \<open>clear_autologon\<close>.\<close>

lemma finish_login_removal:
  assumes run: "finish_login env args state domain_config password w = (r, w')"
    and iu: "initial_user state = PStr iu" and la: "local_admin_user state = PStr la"
  shows "\<exists>new. os_calls w' = os_calls w @ new
     \<and> take 1 new = [ClearAutologon]
     \<and> (py_lower iu = py_lower la \<longrightarrow> (\<forall>u. RemoveLocalUser u \<notin> set new))
     \<and> (py_lower iu \<noteq> py_lower la \<and> os_ok env ClearAutologon
          \<longrightarrow> take 2 new = [ClearAutologon, RemoveLocalUser iu])
     \<and> (\<forall>u. RemoveLocalUser u \<in> set new \<longrightarrow> u = iu \<and> py_lower iu \<noteq> py_lower la)"
  using run iu la
  unfolding finish_login_def wbind_def lift_def os_do_def on_files_def on_ledger_def
  by (auto split: sum.splits prod.splits if_splits simp: bind_def)

text \<open>\<open>unprotect_string\<close> returns on no argument.\<close>

lemma unprotect_string_raises: "unprotect_string D p \<noteq> Inr x"
proof (cases p)
  case (PStr t)
  then show ?thesis
    by (cases "b64decode t") (simp_all add: unprotect_string_def Let_def)
qed (simp_all add: unprotect_string_def)

lemma post_login_result:
  "post_login env args w = (r, w') \<Longrightarrow> isl r \<and> os_calls w' = os_calls w"
  unfolding post_login_def wbind_def lift_def read_files_def
  apply (auto split: sum.splits prod.splits if_splits simp: unprotect_string_raises)
  apply (metis sum.disc(1))
  done

text \<open>
  Claim C9 reads: phase 2 removes the build user's account if and only if its name differs
  from the administrator's up to case. \<open>_post_login\<close> unprotects the domain password before
  it touches the machine, and \<open>unprotect_string\<close> raises on every argument: every run of
  the phase ends with an exception and without a single call on the machine, so the
  account is not removed when the names differ either. The last conjunct is the run on a
  machine whose state file names the build user \<open>Build\<close> and the administrator
  \<open>WorkstationAdmin\<close>.
\<close>

theorem post_login_removes_nothing:
  "isl (fst (post_login env args w))
   \<and> os_calls (snd (post_login env args w)) = os_calls w
   \<and> os_calls (snd (post_login ready_env ready_args (ready_world ''Build''))) = []"
proof -
  have "isl (fst (post_login env args w)) \<and> os_calls (snd (post_login env args w)) = os_calls w"
    for env args w
    using post_login_result[of env args w] by (cases "post_login env args w") auto
  then show ?thesis by (simp add: ready_world_def)
qed

end
